theory Spec2Isabelle
  imports Main "HOL-Library.Word" "HOL-Library.Finite_Map"
begin

unbundle bit_operations_syntax

section \<open>Time\<close>

text \<open>
  Instants are nanoseconds on one clock, as integers. A Go \<^verbatim>\<open>time.Duration\<close> is a signed
  64-bit count of nanoseconds, and \<^verbatim>\<open>Time.Sub\<close> saturates at the two ends of that range
  instead of wrapping.
\<close>

type_synonym Time = int
type_synonym Duration = int

definition maxDuration :: Duration where
  "maxDuration = 2 ^ 63 - 1"

definition minDuration :: Duration where
  "minDuration = - (2 ^ 63)"

definition time_Sub :: "Time \<Rightarrow> Time \<Rightarrow> Duration" where
  "time_Sub t u =
     (if t - u > maxDuration then maxDuration
      else if t - u < minDuration then minDuration
      else t - u)"

text \<open>The zero \<^verbatim>\<open>time.Time\<close> (1 January of year 1, UTC), in nanoseconds before the Unix epoch.\<close>

definition zeroTime :: Time where
  "zeroTime = - 62135596800 * 1000000000"

section \<open>PLI debouncer (internal/media/sfu/forwarder.go)\<close>

record pliDebouncer =
  lastPLI :: Time
  interval :: Duration

definition newPLIDebouncer :: "Duration \<Rightarrow> pliDebouncer" where
  "newPLIDebouncer i = \<lparr>lastPLI = zeroTime, interval = i\<rparr>"

text \<open>
  \<^verbatim>\<open>shouldSendPLI\<close> reads the clock once (\<open>now\<close>), under the debouncer's mutex; the model
  returns the answer and the debouncer after the call.
\<close>

definition shouldSendPLI :: "Time \<Rightarrow> pliDebouncer \<Rightarrow> bool \<times> pliDebouncer" where
  "shouldSendPLI now d =
     (if time_Sub now (lastPLI d) < interval d then (False, d)
      else (True, d\<lparr>lastPLI := now\<rparr>))"

section \<open>Circuit breaker (pkg/webhook/circuit_breaker.go)\<close>

definition StateClosed :: string where "StateClosed = ''closed''"
definition StateOpen :: string where "StateOpen = ''open''"
definition StateHalfOpen :: string where "StateHalfOpen = ''half_open''"

record CircuitBreakerConfig =
  FailureThreshold :: int
  ResetTimeout :: Duration
  HalfOpenMaxAttempts :: int

record CircuitBreaker =
  cb_state :: string
  cb_failures :: int
  cb_successes :: int
  cb_lastFailureTime :: Time
  cb_config :: CircuitBreakerConfig

definition NewCircuitBreaker :: "CircuitBreakerConfig \<Rightarrow> CircuitBreaker" where
  "NewCircuitBreaker cfg =
     (let cfg' = (if HalfOpenMaxAttempts cfg \<le> 0 then cfg\<lparr>HalfOpenMaxAttempts := 1\<rparr> else cfg)
      in \<lparr>cb_state = StateClosed, cb_failures = 0, cb_successes = 0,
          cb_lastFailureTime = zeroTime, cb_config = cfg'\<rparr>)"

text \<open>\<^verbatim>\<open>AllowRequest\<close>: the \<^verbatim>\<open>switch\<close> on the state string, with its \<^verbatim>\<open>default\<close> branch.\<close>

definition AllowRequest :: "Time \<Rightarrow> CircuitBreaker \<Rightarrow> bool \<times> CircuitBreaker" where
  "AllowRequest now cb =
     (if cb_state cb = StateClosed then (True, cb)
      else if cb_state cb = StateOpen then
        (if time_Sub now (cb_lastFailureTime cb) > ResetTimeout (cb_config cb)
         then (True, cb\<lparr>cb_state := StateHalfOpen, cb_successes := 0\<rparr>)
         else (False, cb))
      else if cb_state cb = StateHalfOpen then (True, cb)
      else (True, cb))"

definition RecordSuccess :: "CircuitBreaker \<Rightarrow> CircuitBreaker" where
  "RecordSuccess cb =
     (let cb1 = cb\<lparr>cb_failures := 0\<rparr> in
      if cb_state cb1 = StateHalfOpen then
        (let cb2 = cb1\<lparr>cb_successes := cb_successes cb1 + 1\<rparr> in
         if cb_successes cb2 \<ge> HalfOpenMaxAttempts (cb_config cb2)
         then cb2\<lparr>cb_state := StateClosed\<rparr>
         else cb2)
      else cb1\<lparr>cb_state := StateClosed\<rparr>)"

definition RecordFailure :: "Time \<Rightarrow> CircuitBreaker \<Rightarrow> CircuitBreaker" where
  "RecordFailure now cb =
     (let cb1 = cb\<lparr>cb_failures := cb_failures cb + 1, cb_lastFailureTime := now\<rparr> in
      if cb_state cb1 = StateHalfOpen then cb1\<lparr>cb_state := StateOpen\<rparr>
      else if cb_failures cb1 \<ge> FailureThreshold (cb_config cb1)
      then cb1\<lparr>cb_state := StateOpen\<rparr>
      else cb1)"

text \<open>Consecutive \<^verbatim>\<open>RecordFailure\<close> calls, one per clock reading of the list.\<close>

fun RecordFailures :: "Time list \<Rightarrow> CircuitBreaker \<Rightarrow> CircuitBreaker" where
  "RecordFailures [] cb = cb"
| "RecordFailures (t # ts) cb = RecordFailures ts (RecordFailure t cb)"

section \<open>Dialog definitions (pkg/dialog/types.go)\<close>

record Action =
  action_Type :: string
  action_Params :: "(string, string) fmap"

record Transition =
  Event :: string
  Condition :: string
  Target :: string
  Actions :: "Action list"

record State =
  OnEnter :: "Action list"
  Transitions :: "Transition list"
  Timeout :: string
  TimeoutNext :: string
  Terminal :: bool

record Dialog =
  dialog_Name :: string
  dialog_Variables :: "(string, string) fmap"
  InitialState :: string
  States :: "(string, State) fmap"

section \<open>Sessions (pkg/dialog/session.go)\<close>

definition DefaultMaxHistory :: int where
  "DefaultMaxHistory = 1000"

record StateRecord =
  FromState :: string
  ToState :: string
  Trigger :: string
  Timestamp :: Time

text \<open>The values the code stores behind \<^verbatim>\<open>any\<close>: a speech text, a DTMF rune, or nothing yet.\<close>

datatype any_value = AnyNil | AnyString string | AnyRune nat

record Session =
  maxHistory :: int
  session_ID :: string
  DialogName :: string
  CurrentState :: string
  Variables :: "(string, string) fmap"
  History :: "StateRecord list"
  StartTime :: Time
  LastEvent :: any_value
  LastResult :: "(string, any_value) fmap"

definition NewSession :: "Time \<Rightarrow> string \<Rightarrow> string \<Rightarrow> string \<Rightarrow> Session" where
  "NewSession now sid dialogName initialState =
     \<lparr>maxHistory = DefaultMaxHistory, session_ID = sid, DialogName = dialogName,
      CurrentState = initialState, Variables = fmempty, History = [],
      StartTime = now, LastEvent = AnyNil, LastResult = fmempty\<rparr>"

text \<open>Go's integer division truncates towards zero.\<close>

definition go_quot :: "int \<Rightarrow> int \<Rightarrow> int" where
  "go_quot a b = sgn a * sgn b * (\<bar>a\<bar> div \<bar>b\<bar>)"

datatype go_panic = SliceBoundsOutOfRange | NegativeShiftAmount | NilPointerDereference

text \<open>
  \<^verbatim>\<open>RecordTransition\<close>, with the clock reading of the new record as \<open>now\<close>. The slice
  expression \<^verbatim>\<open>s.History[evict:]\<close> panics when \<open>evict\<close> exceeds the length.
\<close>

definition RecordTransition ::
  "Time \<Rightarrow> string \<Rightarrow> string \<Rightarrow> string \<Rightarrow> Session \<Rightarrow> go_panic + Session" where
  "RecordTransition now from_state to_state trigger s =
     (let r = \<lparr>FromState = from_state, ToState = to_state, Trigger = trigger, Timestamp = now\<rparr> in
      if int (length (History s)) \<ge> maxHistory s then
        (let evict0 = go_quot (maxHistory s) 10;
             evict = (if evict0 < 1 then 1 else evict0) in
         if evict > int (length (History s)) then Inl SliceBoundsOutOfRange
         else Inr (s\<lparr>History := drop (nat evict) (History s) @ [r], CurrentState := to_state\<rparr>))
      else Inr (s\<lparr>History := History s @ [r], CurrentState := to_state\<rparr>))"

definition SetVariable :: "string \<Rightarrow> string \<Rightarrow> Session \<Rightarrow> Session" where
  "SetVariable k v s = s\<lparr>Variables := fmupd k v (Variables s)\<rparr>"

definition SetLastEvent :: "any_value \<Rightarrow> Session \<Rightarrow> Session" where
  "SetLastEvent e s = s\<lparr>LastEvent := e\<rparr>"

section \<open>Condition templates (pkg/dialog, EvalCondition) and the state machine (pkg/dialog/fsm.go)\<close>

text \<open>
  A Go string is a sequence of bytes, here a list of 8-bit characters. \<^verbatim>\<open>strings.TrimSpace\<close>
  removes the leading and the trailing white space as Unicode defines it
  (\<^verbatim>\<open>unicode.IsSpace\<close>), reading the bytes as UTF-8: the code points U+0009 to U+000D, U+0020,
  U+0085, U+00A0, U+1680, U+2000 to U+200A, U+2028, U+2029, U+202F, U+205F and U+3000. The
  table holds their UTF-8 encodings. Bytes that are no valid UTF-8 decode to U+FFFD, which
  is no white space, and the decoder accepts no other encoding of a code point than the
  shortest one, so the white space at either end of a string is what the table spells.
\<close>

definition whiteSpace :: "string list" where
  "whiteSpace =
     [[CHR 0x09], [CHR 0x0A], [CHR 0x0B], [CHR 0x0C], [CHR 0x0D], [CHR 0x20],
      [CHR 0xC2, CHR 0x85], [CHR 0xC2, CHR 0xA0],
      [CHR 0xE1, CHR 0x9A, CHR 0x80],
      [CHR 0xE2, CHR 0x80, CHR 0x80], [CHR 0xE2, CHR 0x80, CHR 0x81],
      [CHR 0xE2, CHR 0x80, CHR 0x82], [CHR 0xE2, CHR 0x80, CHR 0x83],
      [CHR 0xE2, CHR 0x80, CHR 0x84], [CHR 0xE2, CHR 0x80, CHR 0x85],
      [CHR 0xE2, CHR 0x80, CHR 0x86], [CHR 0xE2, CHR 0x80, CHR 0x87],
      [CHR 0xE2, CHR 0x80, CHR 0x88], [CHR 0xE2, CHR 0x80, CHR 0x89],
      [CHR 0xE2, CHR 0x80, CHR 0x8A],
      [CHR 0xE2, CHR 0x80, CHR 0xA8], [CHR 0xE2, CHR 0x80, CHR 0xA9],
      [CHR 0xE2, CHR 0x80, CHR 0xAF],
      [CHR 0xE2, CHR 0x81, CHR 0x9F],
      [CHR 0xE3, CHR 0x80, CHR 0x80]]"

text \<open>
  The number of bytes of the entry of a table that a string starts with, 0 when it starts
  with none; no entry is the beginning of another one.
\<close>

definition spaceWidth :: "string list \<Rightarrow> string \<Rightarrow> nat" where
  "spaceWidth encs s =
     (case find (\<lambda>e. take (length e) s = e) encs of None \<Rightarrow> 0 | Some e \<Rightarrow> length e)"

fun trimPrefix :: "string list \<Rightarrow> string \<Rightarrow> string" where
  "trimPrefix encs [] = []"
| "trimPrefix encs (c # cs) =
     (case spaceWidth encs (c # cs) of
        0 \<Rightarrow> c # cs
      | Suc n \<Rightarrow> trimPrefix encs (drop n cs))"

text \<open>
  The leading white space goes first; the trailing white space of what is left is the
  leading one of the reversed bytes, spelled backwards.
\<close>

definition TrimLeft :: "string \<Rightarrow> string" where
  "TrimLeft s = trimPrefix whiteSpace s"

definition TrimRight :: "string \<Rightarrow> string" where
  "TrimRight s = rev (trimPrefix (map rev whiteSpace) (rev s))"

definition TrimSpace :: "string \<Rightarrow> string" where
  "TrimSpace s = TrimRight (TrimLeft s)"

text \<open>
  \<^verbatim>\<open>renderTemplate\<close> parses and executes a \<^verbatim>\<open>text/template\<close>; the library is outside the
  repository, so the renderer is a parameter: given the template text and the session it
  returns the rendered text, or the error of parsing or executing (\<open>Inl\<close>).
\<close>

type_synonym renderer = "string \<Rightarrow> Session \<Rightarrow> string + string"

definition EvalCondition :: "renderer \<Rightarrow> string \<Rightarrow> Session \<Rightarrow> string + bool" where
  "EvalCondition renderTemplate condition session =
     (if condition = [] then Inr True
      else case renderTemplate condition session of
             Inl err \<Rightarrow> Inl err
           | Inr result \<Rightarrow>
               (let result' = TrimSpace result in
                Inr (result' \<noteq> [] \<and> result' \<noteq> ''false'' \<and> result' \<noteq> ''<no value>'')))"

text \<open>
  \<^verbatim>\<open>EvaluateTransitions\<close>: the loop over \<^verbatim>\<open>state.Transitions\<close> as recursion on the list.
  The result is the error of a condition (\<^verbatim>\<open>eval condition %q: %w\<close>, kept as the
  condition and the wrapped error), or the target and actions (\<open>([], [])\<close> when no
  transition matches).
\<close>

datatype fsm_error = EvalConditionFailed string string

fun evalTransitionList ::
  "renderer \<Rightarrow> Transition list \<Rightarrow> string \<Rightarrow> Session \<Rightarrow> fsm_error + (string \<times> Action list)" where
  "evalTransitionList renderTemplate [] event session = Inr ([], [])"
| "evalTransitionList renderTemplate (t # ts) event session =
     (if Event t \<noteq> event then evalTransitionList renderTemplate ts event session
      else case EvalCondition renderTemplate (Condition t) session of
             Inl err \<Rightarrow> Inl (EvalConditionFailed (Condition t) err)
           | Inr match \<Rightarrow>
               (if match then Inr (Target t, Actions t)
                else evalTransitionList renderTemplate ts event session))"

definition EvaluateTransitions ::
  "renderer \<Rightarrow> State \<Rightarrow> string \<Rightarrow> Session \<Rightarrow> fsm_error + (string \<times> Action list)" where
  "EvaluateTransitions renderTemplate state event session =
     evalTransitionList renderTemplate (Transitions state) event session"

definition GetState :: "Dialog \<Rightarrow> string \<Rightarrow> State option" where
  "GetState sm name = fmlookup (States sm) name"

text \<open>
  The matching rule in the specification's words: a transition is chosen when its event is
  the incoming one and its condition is empty or renders, trimmed, to a text other than
  the empty one, \<open>false\<close> and \<open><no value>\<close>; the first such transition gives the
  target and the actions, and none gives the empty target.
\<close>

definition truthy :: "string \<Rightarrow> bool" where
  "truthy r = (r \<noteq> [] \<and> r \<noteq> ''false'' \<and> r \<noteq> ''<no value>'')"

definition cond_holds :: "renderer \<Rightarrow> Transition \<Rightarrow> Session \<Rightarrow> bool" where
  "cond_holds renderTemplate t session =
     (Condition t = [] \<or>
      (case renderTemplate (Condition t) session of
         Inl err \<Rightarrow> False
       | Inr result \<Rightarrow> truthy (TrimSpace result)))"

definition cond_fails :: "renderer \<Rightarrow> Transition \<Rightarrow> Session \<Rightarrow> bool" where
  "cond_fails renderTemplate t session =
     (Condition t \<noteq> [] \<and> isl (renderTemplate (Condition t) session))"

definition spec_first_match ::
  "renderer \<Rightarrow> Transition list \<Rightarrow> string \<Rightarrow> Session \<Rightarrow> string \<times> Action list" where
  "spec_first_match renderTemplate ts event session =
     (case find (\<lambda>t. Event t = event \<and> cond_holds renderTemplate t session) ts of
        None \<Rightarrow> ([], [])
      | Some t \<Rightarrow> (Target t, Actions t))"

text \<open>
  A renderer for the examples. \<^verbatim>\<open>text/template\<close> copies text without actions to the
  output; the stand-in refuses every template with the left delimiter, among them the
  unterminated action \<^verbatim>\<open>{{\<close> that the library refuses as well.
\<close>

fun hasAction :: "string \<Rightarrow> bool" where
  "hasAction (a # b # cs) = ((a = CHR ''{'' \<and> b = CHR ''{'') \<or> hasAction (b # cs))"
| "hasAction cs = False"

definition render_literal :: renderer where
  "render_literal tmpl session =
     (if hasAction tmpl then Inl ''template: action not rendered'' else Inr tmpl)"

text \<open>Example data: a session whose history is at the default cap.\<close>

definition example_record :: StateRecord where
  "example_record = \<lparr>FromState = ''start'', ToState = ''start'', Trigger = ''again'', Timestamp = 1\<rparr>"

definition example_full_session :: Session where
  "example_full_session =
     (NewSession 0 ''s1'' ''support'' ''start'')\<lparr>History := replicate 1000 example_record\<rparr>"

text \<open>Example data: a state whose first speech transition has an unterminated action.\<close>

definition example_state :: State where
  "example_state =
     \<lparr>OnEnter = [],
      Transitions =
        [\<lparr>Event = ''dtmf'', Condition = [], Target = ''menu'', Actions = []\<rparr>,
         \<lparr>Event = ''speech'', Condition = ''{{'', Target = ''agent'', Actions = []\<rparr>,
         \<lparr>Event = ''speech'', Condition = [], Target = ''process'', Actions = []\<rparr>],
      Timeout = ''10s'', TimeoutNext = ''goodbye'', Terminal = False\<rparr>"

text \<open>
  Example data: a state whose first speech condition renders to \<open>false\<close> between a no-break
  space (U+00A0) and a space.
\<close>

definition example_state_ok :: State where
  "example_state_ok =
     \<lparr>OnEnter = [],
      Transitions =
        [\<lparr>Event = ''dtmf'', Condition = [], Target = ''menu'', Actions = []\<rparr>,
         \<lparr>Event = ''speech'', Condition = [CHR 0xC2, CHR 0xA0] @ ''false '', Target = ''agent'',
          Actions = []\<rparr>,
         \<lparr>Event = ''speech'', Condition = ''yes'', Target = ''process'',
          Actions = [\<lparr>action_Type = ''hangup'', action_Params = fmempty\<rparr>]\<rparr>],
      Timeout = ''10s'', TimeoutNext = ''goodbye'', Terminal = False\<rparr>"

section \<open>Media rooms (internal/media/sfu)\<close>

record EncryptionInfo =
  Algorithm :: string
  KeyID :: "32 word"
  SenderKey :: "8 word list"

record PeerConfig =
  PublishAudio :: bool
  PublishVideo :: bool
  Simulcast :: bool
  cfg_Encryption :: "EncryptionInfo option"
  cfg_AutoSubscribeAudio :: bool

definition DefaultPeerConfig :: PeerConfig where
  "DefaultPeerConfig =
     \<lparr>PublishAudio = True, PublishVideo = False, Simulcast = False,
      cfg_Encryption = None, cfg_AutoSubscribeAudio = True\<rparr>"

datatype RTPCodecType = RTPCodecTypeAudio | RTPCodecTypeVideo

record DownTrack =
  dt_sourceID :: string
  dt_trackID :: string
  dt_rid :: string
  dt_muted :: bool

text \<open>A peer; the transport connection behind it is not part of the model.\<close>

record Peer =
  peer_id :: string
  peer_metadata :: "(string, string) fmap"
  downTracks :: "(string, DownTrack) fmap"
  peer_state :: string
  peerConfig :: PeerConfig
  encryption :: "EncryptionInfo option"

type_synonym VideoQualityLevel = int

definition QualityLow :: VideoQualityLevel where "QualityLow = 1"
definition QualityMedium :: VideoQualityLevel where "QualityMedium = 2"
definition QualityHigh :: VideoQualityLevel where "QualityHigh = 3"

definition qualityToRID :: "VideoQualityLevel \<Rightarrow> string" where
  "qualityToRID q =
     (if q = QualityLow then ''q''
      else if q = QualityMedium then ''h''
      else if q = QualityHigh then ''f''
      else [])"

text \<open>
  A subscription names its subscriber by peer id and holds its down track; a missing down
  track is the \<^verbatim>\<open>nil\<close> pointer.
\<close>

record Subscription =
  sub_subscriber :: string
  sub_downTrack :: "DownTrack option"
  currentQuality :: VideoQualityLevel
  maxTemporalLayer :: int
  maxSpatialLayer :: int
  paused :: bool

record TrackRemote =
  remote_ID :: string
  remote_StreamID :: string
  remote_RID :: string
  remote_Kind :: RTPCodecType
  remote_MimeType :: string

record trackLayer =
  layer_rid :: string
  layer_remote :: "TrackRemote option"

text \<open>
  A publisher track. The layers are a Go map from RID to layer; the list gives them in the
  order in which one \<^verbatim>\<open>range\<close> over the map meets them, whichever that is. The publisher is
  named by peer id.
\<close>

record PublisherTrack =
  pt_id :: string
  pt_publisher :: string
  pt_kind :: RTPCodecType
  pt_mimeType :: string
  pt_simulcast :: bool
  pt_svc :: bool
  pt_layers :: "(string \<times> trackLayer) list"
  pt_subscribers :: "(string, Subscription) fmap"

datatype sfu_error =
    ErrRoomClosed string
  | ErrRoomFull string int int
  | ErrE2EENoEncryptionInfo
  | ErrE2EENoAlgorithm
  | ErrNoLayersAvailable
  | ErrSubscriptionNotFound
  | ErrNewTrackLocal
  | ErrAddTrack

text \<open>
  The two calls of the transport library that can fail while subscribing: creating the
  local track for a remote one, and adding a track to a peer's connection. Their outcomes
  are parameters.
\<close>

record webrtc_lib =
  NewTrackLocalStaticRTP_ok :: "TrackRemote \<Rightarrow> bool"
  AddTrack_ok :: "string \<Rightarrow> string \<Rightarrow> bool"

definition ValidateE2EERoom :: "bool \<Rightarrow> EncryptionInfo option \<Rightarrow> sfu_error option" where
  "ValidateE2EERoom roomRequired peerEnc =
     (if roomRequired \<and> peerEnc = None then Some ErrE2EENoEncryptionInfo
      else if roomRequired \<and> (case peerEnc of None \<Rightarrow> False | Some e \<Rightarrow> Algorithm e = [])
      then Some ErrE2EENoAlgorithm
      else None)"

definition NewSubscription ::
  "PublisherTrack \<Rightarrow> Peer \<Rightarrow> DownTrack \<Rightarrow> VideoQualityLevel \<Rightarrow> int \<Rightarrow> int \<Rightarrow> Subscription" where
  "NewSubscription pt subscriber dt quality maxTemporal maxSpatial =
     \<lparr>sub_subscriber = peer_id subscriber, sub_downTrack = Some dt,
      currentQuality = (if quality = 0 then QualityHigh else quality),
      maxTemporalLayer = maxTemporal, maxSpatialLayer = maxSpatial, paused = False\<rparr>"

text \<open>
  The remote track that \<^verbatim>\<open>Subscribe\<close> takes the codec from: for a simulcast track the
  layer of the requested quality, and otherwise, or when that layer is missing or has no
  remote track, the first layer that a \<^verbatim>\<open>range\<close> over the layers meets.
\<close>

definition pickSourceRemote :: "PublisherTrack \<Rightarrow> VideoQualityLevel \<Rightarrow> TrackRemote option" where
  "pickSourceRemote pt quality =
     (let byQuality =
            (if pt_simulcast pt
             then (case map_of (pt_layers pt) (qualityToRID quality) of
                     Some layer \<Rightarrow> layer_remote layer
                   | None \<Rightarrow> None)
             else None)
      in case byQuality of
           Some remote \<Rightarrow> Some remote
         | None \<Rightarrow> (case pt_layers pt of [] \<Rightarrow> None | (rid, layer) # rest \<Rightarrow> layer_remote layer))"

definition NewDownTrackFor :: "PublisherTrack \<Rightarrow> TrackRemote \<Rightarrow> VideoQualityLevel \<Rightarrow> DownTrack" where
  "NewDownTrackFor pt remote quality =
     \<lparr>dt_sourceID = pt_publisher pt, dt_trackID = remote_ID remote,
      dt_rid = (if pt_simulcast pt then qualityToRID quality else []),
      dt_muted = False\<rparr>"

definition AddDownTrack :: "webrtc_lib \<Rightarrow> DownTrack \<Rightarrow> Peer \<Rightarrow> sfu_error + Peer" where
  "AddDownTrack lib dt p =
     (if \<not> AddTrack_ok lib (peer_id p) (dt_trackID dt) then Inl ErrAddTrack
      else Inr (p\<lparr>downTracks := fmupd (dt_trackID dt) dt (downTracks p)\<rparr>))"

text \<open>
  \<^verbatim>\<open>PublisherTrack.Subscribe\<close>: on success the subscription, the track with the subscription
  recorded under the subscriber's id, and the subscriber with the down track added.
  \<open>NewDownTrackFor\<close> stands for \<^verbatim>\<open>NewSimulcastDownTrack\<close> on a simulcast track and for
  \<^verbatim>\<open>NewDownTrack\<close> otherwise.
\<close>

definition Subscribe ::
  "webrtc_lib \<Rightarrow> PublisherTrack \<Rightarrow> Peer \<Rightarrow> VideoQualityLevel \<Rightarrow> int \<Rightarrow> int
     \<Rightarrow> sfu_error + (Subscription \<times> PublisherTrack \<times> Peer)" where
  "Subscribe lib pt subscriber quality maxTemporal maxSpatial =
     (case pickSourceRemote pt quality of
        None \<Rightarrow> Inl ErrNoLayersAvailable
      | Some remote \<Rightarrow>
          if \<not> NewTrackLocalStaticRTP_ok lib remote then Inl ErrNewTrackLocal
          else
            (let dt = NewDownTrackFor pt remote quality in
             case AddDownTrack lib dt subscriber of
               Inl err \<Rightarrow> Inl err
             | Inr subscriber' \<Rightarrow>
                 (let sub = NewSubscription pt subscriber dt quality maxTemporal maxSpatial
                  in Inr (sub,
                          pt\<lparr>pt_subscribers := fmupd (peer_id subscriber) sub (pt_subscribers pt)\<rparr>,
                          subscriber'))))"

text \<open>
  A room. The peers are a Go map from peer id to peer; the publisher tracks are a Go map
  from track id to track, given as the list of its entries in the order of one
  \<^verbatim>\<open>range\<close> over it.
\<close>

record RoomOptions =
  opt_MaxPublishers :: int
  opt_AutoSubscribeAudio :: bool
  opt_E2EERequired :: bool

record Room =
  room_id :: string
  peers :: "(string, Peer) fmap"
  maxPeers :: int
  maxPublishers :: int
  room_metadata :: "(string, string) fmap"
  closed :: bool
  publisherTracks :: "(string \<times> PublisherTrack) list"
  speakerDetectorStarted :: bool
  autoSubscribeAudio :: bool
  e2eeRequired :: bool

definition NewRoom :: "string \<Rightarrow> int \<Rightarrow> (string, string) fmap \<Rightarrow> RoomOptions \<Rightarrow> Room" where
  "NewRoom rid maxPeers0 metadata opts =
     \<lparr>room_id = rid, peers = fmempty,
      maxPeers = (if maxPeers0 \<le> 0 then 1000 else maxPeers0),
      maxPublishers = (if opt_MaxPublishers opts \<le> 0 then 100 else opt_MaxPublishers opts),
      room_metadata = metadata, closed = False, publisherTracks = [],
      speakerDetectorStarted = False,
      autoSubscribeAudio = opt_AutoSubscribeAudio opts,
      e2eeRequired = opt_E2EERequired opts\<rparr>"

definition PeerCount :: "Room \<Rightarrow> int" where
  "PeerCount r = int (fcard (fmdom (peers r)))"

text \<open>
  The auto-subscribe loop of \<^verbatim>\<open>AddPeer\<close> over the publisher tracks: every audio track of
  another publisher is subscribed at high quality with no layer limit, and a failed
  subscription is dropped without a trace.
\<close>

fun autoSubscribeTracks ::
  "webrtc_lib \<Rightarrow> (string \<times> PublisherTrack) list \<Rightarrow> Peer
     \<Rightarrow> (string \<times> PublisherTrack) list \<times> Peer" where
  "autoSubscribeTracks lib [] p = ([], p)"
| "autoSubscribeTracks lib ((tid, pt) # rest) p =
     (if pt_kind pt = RTPCodecTypeAudio \<and> pt_publisher pt \<noteq> peer_id p then
        (case Subscribe lib pt p QualityHigh (- 1) (- 1) of
           Inl err \<Rightarrow>
             (let (rest', p') = autoSubscribeTracks lib rest p in ((tid, pt) # rest', p'))
         | Inr (sub, pt', p1) \<Rightarrow>
             (let (rest', p') = autoSubscribeTracks lib rest p1 in ((tid, pt') # rest', p')))
      else (let (rest', p') = autoSubscribeTracks lib rest p in ((tid, pt) # rest', p')))"

text \<open>
  \<^verbatim>\<open>AddPeer\<close> under the room's lock: the error or the ids of the available tracks, and the
  room after the call.
\<close>

definition AddPeer :: "webrtc_lib \<Rightarrow> Room \<Rightarrow> Peer \<Rightarrow> (sfu_error + string list) \<times> Room" where
  "AddPeer lib r p =
     (if closed r then (Inl (ErrRoomClosed (room_id r)), r)
      else if PeerCount r \<ge> maxPeers r
      then (Inl (ErrRoomFull (room_id r) (PeerCount r) (maxPeers r)), r)
      else
        (case (if e2eeRequired r then ValidateE2EERoom True (encryption p) else None) of
           Some err \<Rightarrow> (Inl err, r)
         | None \<Rightarrow>
             (let r1 = r\<lparr>peers := fmupd (peer_id p) p (peers r)\<rparr>;
                  r2 = (if PeerCount r1 = 1 then r1\<lparr>speakerDetectorStarted := True\<rparr> else r1);
                  available = map fst (publisherTracks r2)
              in if autoSubscribeAudio r2 \<and> cfg_AutoSubscribeAudio (peerConfig p)
                 then (let (tracks', p') = autoSubscribeTracks lib (publisherTracks r2) p
                       in (Inr available,
                           r2\<lparr>peers := fmupd (peer_id p) p' (peers r2), publisherTracks := tracks'\<rparr>))
                 else (Inr available, r2))))"

definition Unsubscribe :: "string \<Rightarrow> PublisherTrack \<Rightarrow> PublisherTrack" where
  "Unsubscribe subscriberPeerID pt = pt\<lparr>pt_subscribers := fmdrop subscriberPeerID (pt_subscribers pt)\<rparr>"

text \<open>
  \<^verbatim>\<open>RemovePeer\<close>: the peer leaves the map, loses its subscriptions, and its own tracks are
  closed and removed. The down tracks that other peers hold for those tracks stay with
  them, as in the code.
\<close>

definition RemovePeer :: "string \<Rightarrow> Room \<Rightarrow> Room" where
  "RemovePeer peerID r =
     (case fmlookup (peers r) peerID of
        None \<Rightarrow> r
      | Some peer \<Rightarrow>
          r\<lparr>peers := fmdrop peerID (peers r),
            publisherTracks :=
              filter (\<lambda>(tid, pt). pt_publisher pt \<noteq> peerID)
                (map (\<lambda>(tid, pt). (tid, Unsubscribe peerID pt)) (publisherTracks r))\<rparr>)"

definition Close :: "Room \<Rightarrow> Room" where
  "Close r =
     (if closed r then r
      else r\<lparr>closed := True, peers := fmempty, publisherTracks := [],
             speakerDetectorStarted := False\<rparr>)"

datatype room_op = OpAddPeer Peer | OpRemovePeer string | OpClose

fun room_step :: "webrtc_lib \<Rightarrow> Room \<Rightarrow> room_op \<Rightarrow> Room" where
  "room_step lib r (OpAddPeer p) = snd (AddPeer lib r p)"
| "room_step lib r (OpRemovePeer peerID) = RemovePeer peerID r"
| "room_step lib r OpClose = Close r"

definition room_run :: "webrtc_lib \<Rightarrow> Room \<Rightarrow> room_op list \<Rightarrow> Room" where
  "room_run lib r ops = foldl (room_step lib) r ops"

text \<open>The track after one best-effort subscription of peer \<open>p\<close> at high quality, no layer limit.\<close>

definition subscribedTrack :: "webrtc_lib \<Rightarrow> Peer \<Rightarrow> PublisherTrack \<Rightarrow> PublisherTrack" where
  "subscribedTrack lib p pt =
     (case Subscribe lib pt p QualityHigh (- 1) (- 1) of
        Inl err \<Rightarrow> pt
      | Inr (sub, pt', p') \<Rightarrow> pt')"

text \<open>Example data: a room with one audio track published by peer A, and a joining peer B.\<close>

definition lib_ok :: webrtc_lib where
  "lib_ok = \<lparr>NewTrackLocalStaticRTP_ok = (\<lambda>remote. True), AddTrack_ok = (\<lambda>peer track. True)\<rparr>"

definition example_remote :: TrackRemote where
  "example_remote =
     \<lparr>remote_ID = ''mic'', remote_StreamID = ''stream-a'', remote_RID = [],
      remote_Kind = RTPCodecTypeAudio, remote_MimeType = ''audio/opus''\<rparr>"

definition example_track :: PublisherTrack where
  "example_track =
     \<lparr>pt_id = ''mic'', pt_publisher = ''A'', pt_kind = RTPCodecTypeAudio,
      pt_mimeType = ''audio/opus'', pt_simulcast = False, pt_svc = False,
      pt_layers = [([], \<lparr>layer_rid = [], layer_remote = Some example_remote\<rparr>)],
      pt_subscribers = fmempty\<rparr>"

definition example_peer :: "string \<Rightarrow> bool \<Rightarrow> Peer" where
  "example_peer i auto =
     \<lparr>peer_id = i, peer_metadata = fmempty, downTracks = fmempty, peer_state = ''connecting'',
      peerConfig = DefaultPeerConfig\<lparr>cfg_AutoSubscribeAudio := auto\<rparr>, encryption = None\<rparr>"

definition example_room :: Room where
  "example_room =
     (NewRoom ''room1'' 2 fmempty
        \<lparr>opt_MaxPublishers = 0, opt_AutoSubscribeAudio = True, opt_E2EERequired = False\<rparr>)
     \<lparr>peers := fmupd ''A'' (example_peer ''A'' True) fmempty,
      publisherTracks := [(''mic'', example_track)],
      speakerDetectorStarted := True\<rparr>"

definition example_closed_room :: Room where
  "example_closed_room = Close example_room"

definition example_e2ee_room :: Room where
  "example_e2ee_room =
     NewRoom ''room2'' 0 fmempty
       \<lparr>opt_MaxPublishers = 0, opt_AutoSubscribeAudio = False, opt_E2EERequired = True\<rparr>"

definition example_full_room :: Room where
  "example_full_room = example_room\<lparr>maxPeers := 1\<rparr>"

definition example_opts :: RoomOptions where
  "example_opts =
     \<lparr>opt_MaxPublishers = 0, opt_AutoSubscribeAudio = True, opt_E2EERequired = False\<rparr>"

definition example_ops :: "room_op list" where
  "example_ops = [OpAddPeer (example_peer ''A'' True), OpAddPeer (example_peer ''B'' True)]"

section \<open>SVC forwarding (internal/media/sfu/forwarder.go)\<close>

type_synonym bytes = "8 word list"

text \<open>
  The two parsers of the RTP library: \<^verbatim>\<open>rtp.Packet.Unmarshal\<close> gives the payload of a
  packet, and \<^verbatim>\<open>codecs.VP9Packet.Unmarshal\<close> gives the spatial and the temporal layer id of
  a VP9 payload (two bytes); \<open>None\<close> is a parse error. The library is outside the
  repository, so both are parameters.
\<close>

record rtp_lib =
  rtp_Unmarshal :: "bytes \<Rightarrow> bytes option"
  vp9_Unmarshal :: "bytes \<Rightarrow> (8 word \<times> 8 word) option"

text \<open>\<^verbatim>\<open>DownTrack.Write\<close>: the bytes written to the local track, none when the track is muted.\<close>

definition DownTrack_Write :: "DownTrack \<Rightarrow> bytes \<Rightarrow> bytes list" where
  "DownTrack_Write dt data = (if dt_muted dt then [] else [data])"

definition isVP9 :: "string \<Rightarrow> bool" where
  "isVP9 mimeType = (mimeType = ''video/VP9'' \<or> mimeType = ''video/vp9'')"

text \<open>
  One turn of the loop of \<^verbatim>\<open>RunSVCForwarder\<close> after a successful read: the subscription is
  read under its lock, and the packet is dropped or written.
\<close>

definition svcForward :: "rtp_lib \<Rightarrow> bool \<Rightarrow> Subscription \<Rightarrow> bytes \<Rightarrow> bytes list" where
  "svcForward lib vp9 sub pkt =
     (case sub_downTrack sub of
        None \<Rightarrow> []
      | Some dt \<Rightarrow>
          if paused sub then []
          else if vp9 \<and> (maxSpatialLayer sub \<ge> 0 \<or> maxTemporalLayer sub \<ge> 0) then
            (case rtp_Unmarshal lib pkt of
               None \<Rightarrow> []
             | Some payload \<Rightarrow>
                 (case vp9_Unmarshal lib payload of
                    None \<Rightarrow> DownTrack_Write dt pkt
                  | Some (sid, tid) \<Rightarrow>
                      if maxSpatialLayer sub \<ge> 0 \<and> uint sid > maxSpatialLayer sub then []
                      else if maxTemporalLayer sub \<ge> 0 \<and> uint tid > maxTemporalLayer sub then []
                      else DownTrack_Write dt pkt))
          else DownTrack_Write dt pkt)"

text \<open>
  What the loop meets, turn by turn: the context is done, the read fails, or a packet is
  read while the subscription is in the given state. The forwarder runs until one of the
  first two; the list is the part of the run that is looked at, and the result is what has
  been written to the down track by then.
\<close>

datatype svc_event = CtxDone | ReadError | ReadPacket bytes Subscription

fun RunSVCForwarder :: "rtp_lib \<Rightarrow> TrackRemote \<Rightarrow> svc_event list \<Rightarrow> bytes list" where
  "RunSVCForwarder lib remote [] = []"
| "RunSVCForwarder lib remote (CtxDone # evs) = []"
| "RunSVCForwarder lib remote (ReadError # evs) = []"
| "RunSVCForwarder lib remote (ReadPacket pkt sub # evs) =
     svcForward lib (isVP9 (remote_MimeType remote)) sub pkt @ RunSVCForwarder lib remote evs"

text \<open>A packet that parses as VP9 with a spatial or temporal layer id above the limits.\<close>

definition aboveLayers :: "rtp_lib \<Rightarrow> int \<Rightarrow> int \<Rightarrow> bytes \<Rightarrow> bool" where
  "aboveLayers lib maxSpatial maxTemporal pkt =
     (case rtp_Unmarshal lib pkt of
        None \<Rightarrow> False
      | Some payload \<Rightarrow>
          (case vp9_Unmarshal lib payload of
             None \<Rightarrow> False
           | Some (sid, tid) \<Rightarrow> uint sid > maxSpatial \<or> uint tid > maxTemporal))"

text \<open>Whether an event reads a packet under the given layer limits.\<close>

fun hasLimits :: "int \<Rightarrow> int \<Rightarrow> svc_event \<Rightarrow> bool" where
  "hasLimits S T (ReadPacket pkt sub) = (maxSpatialLayer sub = S \<and> maxTemporalLayer sub = T)"
| "hasLimits S T ev = True"

text \<open>
  Example data: a parser pair that reads a three-byte packet as header byte, spatial id,
  temporal id, and a subscription with limits 1 and 1.
\<close>

definition example_rtp_lib :: rtp_lib where
  "example_rtp_lib =
     \<lparr>rtp_Unmarshal = (\<lambda>pkt. case pkt of h # payload \<Rightarrow> Some payload | [] \<Rightarrow> None),
      vp9_Unmarshal = (\<lambda>payload. case payload of [sid, tid] \<Rightarrow> Some (sid, tid) | _ \<Rightarrow> None)\<rparr>"

definition example_sub :: "bool \<Rightarrow> Subscription" where
  "example_sub p =
     \<lparr>sub_subscriber = ''B'',
      sub_downTrack = Some \<lparr>dt_sourceID = ''A'', dt_trackID = ''cam'', dt_rid = [], dt_muted = False\<rparr>,
      currentQuality = 3, maxTemporalLayer = 1, maxSpatialLayer = 1, paused = p\<rparr>"

definition example_video :: "string \<Rightarrow> TrackRemote" where
  "example_video mime =
     \<lparr>remote_ID = ''cam'', remote_StreamID = ''stream-a'', remote_RID = [],
      remote_Kind = RTPCodecTypeVideo, remote_MimeType = mime\<rparr>"

section \<open>Webhook URL validation (pkg/urlvalidation/ssrf.go)\<close>

text \<open>
  A \<^verbatim>\<open>net.IP\<close> is a byte slice of length 4 or 16, and a \<^verbatim>\<open>net.IPNet\<close> is a network number
  with a mask. \<^verbatim>\<open>To4\<close>, \<^verbatim>\<open>CIDRMask\<close> and \<^verbatim>\<open>Contains\<close> follow the standard library.
\<close>

type_synonym IP = "8 word list"

record IPNet =
  net_IP :: IP
  net_Mask :: "8 word list"

definition To4 :: "IP \<Rightarrow> IP option" where
  "To4 ip =
     (if length ip = 4 then Some ip
      else if length ip = 16 \<and> take 10 ip = replicate 10 0 \<and> ip ! 10 = 0xff \<and> ip ! 11 = 0xff
      then Some (drop 12 ip)
      else None)"

text \<open>The mask of \<open>ones\<close> leading one bits in \<open>n\<close> bytes.\<close>

fun CIDRMask :: "nat \<Rightarrow> nat \<Rightarrow> 8 word list" where
  "CIDRMask ones 0 = []"
| "CIDRMask ones (Suc n) =
     (if ones \<ge> 8 then 0xff # CIDRMask (ones - 8) n
      else NOT (mask (8 - ones)) # CIDRMask 0 n)"

definition networkNumberAndMask :: "IPNet \<Rightarrow> IP \<times> 8 word list" where
  "networkNumberAndMask n =
     (let ip = (case To4 (net_IP n) of Some x \<Rightarrow> x | None \<Rightarrow> net_IP n);
          m = net_Mask n
      in if To4 (net_IP n) = None \<and> length ip \<noteq> 16 then ([], [])
         else if length m = 4 then (if length ip \<noteq> 4 then ([], []) else (ip, m))
         else if length m = 16 then (if length ip = 4 then (ip, drop 12 m) else (ip, m))
         else ([], []))"

definition Contains :: "IPNet \<Rightarrow> IP \<Rightarrow> bool" where
  "Contains n ip0 =
     (let (nn, m) = networkNumberAndMask n;
          ip = (case To4 ip0 of Some x \<Rightarrow> x | None \<Rightarrow> ip0)
      in if length ip \<noteq> length nn then False
         else list_all (\<lambda>i. (nn ! i) AND (m ! i) = (ip ! i) AND (m ! i)) [0 ..< length ip])"

text \<open>
  What \<^verbatim>\<open>net.ParseCIDR\<close> returns for an IPv4 literal \<open>a.b.c.d/ones\<close> and for an IPv6 literal
  given by its sixteen bytes: the address under the mask, and the mask.
\<close>

definition cidr4 :: "8 word \<Rightarrow> 8 word \<Rightarrow> 8 word \<Rightarrow> 8 word \<Rightarrow> nat \<Rightarrow> IPNet" where
  "cidr4 a b c d ones =
     \<lparr>net_IP = map2 (AND) [a, b, c, d] (CIDRMask ones 4), net_Mask = CIDRMask ones 4\<rparr>"

definition cidr6 :: "8 word list \<Rightarrow> nat \<Rightarrow> IPNet" where
  "cidr6 addr ones =
     \<lparr>net_IP = map2 (AND) addr (CIDRMask ones 16), net_Mask = CIDRMask ones 16\<rparr>"

text \<open>The table of \<^verbatim>\<open>isPrivateIP\<close>, in the order of the source.\<close>

definition privateRanges :: "IPNet list" where
  "privateRanges =
     [cidr4 10 0 0 0 8,
      cidr4 172 16 0 0 12,
      cidr4 192 168 0 0 16,
      cidr4 127 0 0 0 8,
      cidr4 169 254 0 0 16,
      cidr6 (replicate 15 0 @ [1]) 128,
      cidr6 (0xfc # replicate 15 0) 7,
      cidr6 (0xfe # 0x80 # replicate 14 0) 10,
      cidr4 100 64 0 0 10,
      cidr4 0 0 0 0 8,
      cidr4 192 0 0 0 24,
      cidr4 192 0 2 0 24,
      cidr4 198 51 100 0 24,
      cidr4 203 0 113 0 24,
      cidr4 198 18 0 0 15,
      cidr4 224 0 0 0 4,
      cidr4 240 0 0 0 4,
      cidr4 255 255 255 255 32]"

definition isPrivateIP :: "IP \<Rightarrow> bool" where
  "isPrivateIP ip = list_ex (\<lambda>r. Contains r ip) privateRanges"

record validationConfig =
  allowPrivate :: bool

type_synonym Option = "validationConfig \<Rightarrow> validationConfig"

definition AllowPrivateIPs :: Option where
  "AllowPrivateIPs c = c\<lparr>allowPrivate := True\<rparr>"

text \<open>
  The parsed URL as the validation reads it: the scheme, and the result of \<^verbatim>\<open>Hostname()\<close>.
  \<^verbatim>\<open>url.Parse\<close>, \<^verbatim>\<open>net.LookupHost\<close> and \<^verbatim>\<open>net.ParseIP\<close> are the standard library and the
  resolver; they are parameters.
\<close>

record URL =
  url_Scheme :: string
  url_Hostname :: string

record net_lib =
  url_Parse :: "string \<Rightarrow> string + URL"
  LookupHost :: "string \<Rightarrow> string + string list"
  ParseIP :: "string \<Rightarrow> IP option"

datatype url_error =
    ErrInvalidURL string
  | ErrSchemeNotAllowed string
  | ErrNoHostname
  | ErrCannotResolve string string
  | ErrPrivateIP string

text \<open>\<^verbatim>\<open>strings.ToLower\<close> on ASCII letters; a scheme that \<^verbatim>\<open>url.Parse\<close> accepts is ASCII.\<close>

definition toLowerChar :: "char \<Rightarrow> char" where
  "toLowerChar c =
     (if 65 \<le> (of_char c :: nat) \<and> (of_char c :: nat) \<le> 90
      then char_of ((of_char c :: nat) + 32) else c)"

definition ToLower :: "string \<Rightarrow> string" where
  "ToLower s = map toLowerChar s"

text \<open>The loop over the resolved addresses: the first one in a reserved range is the error.\<close>

fun checkResolved :: "net_lib \<Rightarrow> string list \<Rightarrow> url_error option" where
  "checkResolved lib [] = None"
| "checkResolved lib (ipStr # rest) =
     (case ParseIP lib ipStr of
        None \<Rightarrow> checkResolved lib rest
      | Some ip \<Rightarrow> if isPrivateIP ip then Some (ErrPrivateIP ipStr) else checkResolved lib rest)"

text \<open>\<^verbatim>\<open>ValidateWebhookURL\<close>: \<open>None\<close> is the \<^verbatim>\<open>nil\<close> error of an accepted URL.\<close>

definition applyOptions :: "Option list \<Rightarrow> validationConfig" where
  "applyOptions opts = foldl (\<lambda>c opt. opt c) \<lparr>allowPrivate = False\<rparr> opts"

definition ValidateWebhookURL :: "net_lib \<Rightarrow> string \<Rightarrow> Option list \<Rightarrow> url_error option" where
  "ValidateWebhookURL lib rawURL opts =
     (let cfg = applyOptions opts in
      case url_Parse lib rawURL of
        Inl err \<Rightarrow> Some (ErrInvalidURL err)
      | Inr u \<Rightarrow>
          (let scheme = ToLower (url_Scheme u) in
           if scheme \<noteq> ''https'' \<and> scheme \<noteq> ''http'' then Some (ErrSchemeNotAllowed (url_Scheme u))
           else
             (let host = url_Hostname u in
              if host = [] then Some ErrNoHostname
              else
                (case LookupHost lib host of
                   Inl err \<Rightarrow> Some (ErrCannotResolve host err)
                 | Inr ips \<Rightarrow>
                     if \<not> allowPrivate cfg then checkResolved lib ips else None))))"

text \<open>The byte form of a dotted IPv4 address as \<^verbatim>\<open>net.ParseIP\<close> returns it (16 bytes).\<close>

definition ipv4 :: "8 word \<Rightarrow> 8 word \<Rightarrow> 8 word \<Rightarrow> 8 word \<Rightarrow> IP" where
  "ipv4 a b c d = replicate 10 0 @ [0xff, 0xff, a, b, c, d]"

text \<open>
  The IPv4 ranges in the specification's words: an address \<open>a.b.c.d\<close> is the number
  \<open>((a * 256 + b) * 256 + c) * 256 + d\<close>, and it lies in \<open>base/ones\<close> when it agrees with
  the base on the leading \<open>ones\<close> of its 32 bits.
\<close>

definition ipv4_value :: "nat \<Rightarrow> nat \<Rightarrow> nat \<Rightarrow> nat \<Rightarrow> nat" where
  "ipv4_value a b c d = ((a * 256 + b) * 256 + c) * 256 + d"

definition in_cidr4 :: "nat \<Rightarrow> nat \<Rightarrow> nat \<Rightarrow> bool" where
  "in_cidr4 base ones addr = (addr div 2 ^ (32 - ones) = base div 2 ^ (32 - ones))"

definition reserved4 :: "(nat \<times> nat) list" where
  "reserved4 =
     [(ipv4_value 10 0 0 0, 8), (ipv4_value 172 16 0 0, 12), (ipv4_value 192 168 0 0, 16),
      (ipv4_value 127 0 0 0, 8), (ipv4_value 169 254 0 0, 16), (ipv4_value 100 64 0 0, 10),
      (ipv4_value 0 0 0 0, 8), (ipv4_value 192 0 0 0, 24), (ipv4_value 192 0 2 0, 24),
      (ipv4_value 198 51 100 0, 24), (ipv4_value 203 0 113 0, 24), (ipv4_value 198 18 0 0, 15),
      (ipv4_value 224 0 0 0, 4), (ipv4_value 240 0 0 0, 4), (ipv4_value 255 255 255 255, 32)]"

text \<open>
  The IPv6 ranges in the specification's words, on the sixteen bytes of an address:
  \<open>::1/128\<close> is the one address \<open>::1\<close>, \<open>fc00::/7\<close> fixes the leading seven bits (a first byte
  of \<open>fc\<close> or \<open>fd\<close>), and \<open>fe80::/10\<close> the leading ten (a first byte of \<open>fe\<close> and a second one
  from \<open>80\<close> to \<open>bf\<close>).
\<close>

definition reserved6 :: "nat list \<Rightarrow> bool" where
  "reserved6 bs =
     (bs = replicate 15 0 @ [1] \<or>
      (252 \<le> bs ! 0 \<and> bs ! 0 \<le> 253) \<or>
      (bs ! 0 = 254 \<and> 128 \<le> bs ! 1 \<and> bs ! 1 \<le> 191))"

text \<open>
  Example data: the answers of the library on the inputs of the examples. \<^verbatim>\<open>url.Parse\<close>
  refuses a text that begins with a colon (\<^verbatim>\<open>missing protocol scheme\<close>) and reads a text
  without a scheme as a relative reference; the host of \<^verbatim>\<open>http://[fe80::1%25eth0]/hook\<close> is
  the address literal \<^verbatim>\<open>fe80::1%eth0\<close>, with its zone. \<^verbatim>\<open>net.LookupHost\<close> answers an address
  literal, with or without a zone, by the literal itself. \<^verbatim>\<open>net.ParseIP\<close> reads no address
  with a zone: it returns \<^verbatim>\<open>nil\<close> on \<^verbatim>\<open>fe80::1%eth0\<close>.
\<close>

definition example_net :: net_lib where
  "example_net =
     \<lparr>url_Parse = (\<lambda>raw.
        if raw = ''https://example.com/hook'' then Inr \<lparr>url_Scheme = ''https'', url_Hostname = ''example.com''\<rparr>
        else if raw = ''http://intranet.example/hook'' then Inr \<lparr>url_Scheme = ''http'', url_Hostname = ''intranet.example''\<rparr>
        else if raw = ''ftp://example.com/file'' then Inr \<lparr>url_Scheme = ''ftp'', url_Hostname = ''example.com''\<rparr>
        else if raw = ''http:///path'' then Inr \<lparr>url_Scheme = ''http'', url_Hostname = []\<rparr>
        else if raw = ''http://nowhere.invalid/'' then Inr \<lparr>url_Scheme = ''http'', url_Hostname = ''nowhere.invalid''\<rparr>
        else if raw = ''http://[fe80::1%25eth0]/hook'' then Inr \<lparr>url_Scheme = ''http'', url_Hostname = ''fe80::1%eth0''\<rparr>
        else if raw = ''://example.com'' then Inl ''missing protocol scheme''
        else Inr \<lparr>url_Scheme = [], url_Hostname = []\<rparr>),
      LookupHost = (\<lambda>host.
        if host = ''example.com'' then Inr [''93.184.216.34'']
        else if host = ''intranet.example'' then Inr [''93.184.216.34'', ''10.0.0.1'']
        else if host = ''fe80::1%eth0'' then Inr [''fe80::1%eth0'']
        else Inl ''no such host''),
      ParseIP = (\<lambda>s.
        if s = ''93.184.216.34'' then Some (ipv4 93 184 216 34)
        else if s = ''10.0.0.1'' then Some (ipv4 10 0 0 1)
        else None)\<rparr>"

section \<open>Webhook delivery failures (pkg/webhook, deliverer)\<close>

text \<open>
  The counters of the deliverer are Go \<^verbatim>\<open>int\<close>s: 64-bit two's complement on the platforms
  the service is built for. Arithmetic wraps, comparisons are signed, and a shift by a
  negative count panics while a shift by 64 or more gives 0.
\<close>

type_synonym go_int = "64 word"

definition go_shl :: "go_int \<Rightarrow> go_int \<Rightarrow> go_panic + go_int" where
  "go_shl x n = (if sint n < 0 then Inl NegativeShiftAmount else Inr (push_bit (unat n) x))"

record DelivererConfig =
  MaxRetries :: go_int
  TimeoutSec :: go_int
  BackoffInitialSec :: go_int
  BackoffMaxSec :: go_int
  CBFailThreshold :: go_int
  CBResetTimeoutSec :: go_int

record Envelope =
  env_ID :: string
  env_Type :: string
  env_Source :: string
  env_SessionID :: string
  env_Timestamp :: Time
  env_Data :: string
  env_Metadata :: "(string, string) fmap"

record WebhookEndpoint =
  wh_ID :: string
  wh_URL :: string
  wh_Secret :: string

record DeadLetter =
  dl_WebhookID :: string
  dl_EventID :: string
  dl_EventType :: string
  dl_Payload :: string
  dl_LastError :: string
  dl_Attempts :: go_int
  dl_Replayable :: bool

text \<open>
  The worker pool of the deliverer: absent, or present and accepting the submitted retry,
  or present and full.
\<close>

datatype worker_pool = NoPool | PoolAccepts | PoolFull

text \<open>
  What \<^verbatim>\<open>handleFailure\<close> does: it asks the repository to create a dead letter, or it hands
  a retry (the delay in seconds and the next attempt number) to the pool or to a timer, or
  the full pool drops the retry, or the shift panics.
\<close>

datatype failure_effect =
    CreateDeadLetter DeadLetter
  | RetryViaPool go_int go_int
  | RetryViaTimer go_int go_int
  | RetryDropped
  | Panicked go_panic

text \<open>
  \<^verbatim>\<open>json.Marshal\<close> of the envelope is a parameter; its error is discarded by the code, which
  then stores the empty payload.
\<close>

definition handleFailure ::
  "(Envelope \<Rightarrow> string + string) \<Rightarrow> DelivererConfig \<Rightarrow> worker_pool \<Rightarrow> WebhookEndpoint \<Rightarrow> Envelope
     \<Rightarrow> go_int \<Rightarrow> string \<Rightarrow> failure_effect" where
  "handleFailure json_Marshal cfg pool wh env attempt errMsg =
     (if sint attempt \<ge> sint (MaxRetries cfg) then
        CreateDeadLetter
          \<lparr>dl_WebhookID = wh_ID wh, dl_EventID = env_ID env, dl_EventType = env_Type env,
           dl_Payload = (case json_Marshal env of Inl err \<Rightarrow> [] | Inr payload \<Rightarrow> payload),
           dl_LastError = errMsg, dl_Attempts = attempt, dl_Replayable = True\<rparr>
      else
        (case go_shl 1 (attempt - 1) of
           Inl p \<Rightarrow> Panicked p
         | Inr factor \<Rightarrow>
             (let backoff0 = BackoffInitialSec cfg * factor;
                  backoff = (if sint backoff0 > sint (BackoffMaxSec cfg)
                             then BackoffMaxSec cfg else backoff0)
              in case pool of
                   PoolAccepts \<Rightarrow> RetryViaPool backoff (attempt + 1)
                 | PoolFull \<Rightarrow> RetryDropped
                 | NoPool \<Rightarrow> RetryViaTimer backoff (attempt + 1))))"

text \<open>The delay of the specification: \<open>min (initial * 2 ^ (a - 1)) max\<close>, on the integers.\<close>

definition spec_backoff :: "int \<Rightarrow> int \<Rightarrow> nat \<Rightarrow> int" where
  "spec_backoff initial maxSec a = min (initial * 2 ^ (a - 1)) maxSec"

text \<open>Example data: the default back-off settings, with one hundred retries allowed.\<close>

definition example_deliverer_config :: DelivererConfig where
  "example_deliverer_config =
     \<lparr>MaxRetries = 100, TimeoutSec = 10, BackoffInitialSec = 1, BackoffMaxSec = 300,
      CBFailThreshold = 5, CBResetTimeoutSec = 60\<rparr>"

definition example_envelope :: Envelope where
  "example_envelope =
     \<lparr>env_ID = ''evt-1'', env_Type = ''webhook.test'', env_Source = ''integration'',
      env_SessionID = ''s1'', env_Timestamp = 0, env_Data = ''{}'', env_Metadata = fmempty\<rparr>"

definition example_endpoint :: WebhookEndpoint where
  "example_endpoint = \<lparr>wh_ID = ''wh-1'', wh_URL = ''https://example.com/hook'', wh_Secret = ''k''\<rparr>"

definition example_marshal :: "Envelope \<Rightarrow> string + string" where
  "example_marshal env = Inr (''{id:'' @ env_ID env @ '',type:'' @ env_Type env @ ''}'')"

section \<open>Dialog service handler (internal/dialog/handler)\<close>

text \<open>
  An active session is the session with its state machine. Its background loop, the
  channels into the loop and the cancel function of its context are not part of the model.
\<close>

record activeSession =
  as_session :: Session
  as_sm :: Dialog

text \<open>
  The handler: the loaded dialogs by name, and the session store (a map from session id to
  active session under one lock).
\<close>

record DialogHandler =
  loader :: "(string, Dialog) fmap"
  store_sessions :: "(string, activeSession) fmap"

record StartDialogRequest =
  req_DialogName :: string
  req_SessionId :: string
  req_InitialState :: string
  req_Variables :: "(string, string) fmap"

record ActionDirective =
  dir_Type :: string
  dir_Params :: "(string, string) fmap"

record StartDialogResponse =
  resp_SessionId :: string
  resp_CurrentState :: string
  resp_Actions :: "ActionDirective list"

datatype connect_error =
    CodeNotFound string
  | CodeAlreadyExists string
  | CodeInvalidArgument string
  | CodeResourceExhausted string
  | CodeDeadlineExceeded string
  | CodeInternal string

definition actionsToDirectives :: "Action list \<Rightarrow> ActionDirective list" where
  "actionsToDirectives actions =
     map (\<lambda>a. \<lparr>dir_Type = action_Type a, dir_Params = action_Params a\<rparr>) actions"

text \<open>
  \<^verbatim>\<open>StartDialog\<close> at clock reading \<open>now\<close>: the error or the response, and the handler after
  the call. The request's variables are set one by one on the new session, which leaves
  them as the session's variables.
\<close>

definition StartDialog ::
  "Time \<Rightarrow> DialogHandler \<Rightarrow> StartDialogRequest
     \<Rightarrow> (connect_error + StartDialogResponse) \<times> DialogHandler" where
  "StartDialog now h req =
     (let dialogName = req_DialogName req in
      case fmlookup (loader h) dialogName of
        None \<Rightarrow> (Inl (CodeNotFound dialogName), h)
      | Some sm \<Rightarrow>
          (let initialState =
                 (if req_InitialState req = [] then InitialState sm else req_InitialState req);
               session0 = NewSession now (req_SessionId req) dialogName initialState;
               session = session0\<lparr>Variables := Variables session0 ++\<^sub>f req_Variables req\<rparr>
           in case GetState sm initialState of
                None \<Rightarrow> (Inl (CodeNotFound initialState), h)
              | Some state \<Rightarrow>
                  (let as = \<lparr>as_session = session, as_sm = sm\<rparr>
                   in (Inr \<lparr>resp_SessionId = session_ID session,
                            resp_CurrentState = initialState,
                            resp_Actions = actionsToDirectives (OnEnter state)\<rparr>,
                       h\<lparr>store_sessions := fmupd (session_ID session) as (store_sessions h)\<rparr>))))"

definition EndDialog :: "DialogHandler \<Rightarrow> string \<Rightarrow> connect_error option \<times> DialogHandler" where
  "EndDialog h sid =
     (case fmlookup (store_sessions h) sid of
        None \<Rightarrow> (Some (CodeNotFound sid), h)
      | Some as \<Rightarrow> (None, h\<lparr>store_sessions := fmdrop sid (store_sessions h)\<rparr>))"

definition sessionTTL :: Duration where
  "sessionTTL = 30 * 60 * 1000000000"

definition reapStaleSessions :: "Time \<Rightarrow> DialogHandler \<Rightarrow> DialogHandler" where
  "reapStaleSessions now h =
     h\<lparr>store_sessions :=
         fmfilter (\<lambda>sid. case fmlookup (store_sessions h) sid of
                            None \<Rightarrow> False
                          | Some as \<Rightarrow> \<not> time_Sub now (StartTime (as_session as)) > sessionTTL)
           (store_sessions h)\<rparr>"

text \<open>Example data: a handler with two dialogs, and two requests for the same session id.\<close>

definition example_dialog :: "string \<Rightarrow> Dialog" where
  "example_dialog name =
     \<lparr>dialog_Name = name, dialog_Variables = fmempty, InitialState = ''greeting'',
      States = fmupd ''greeting''
        \<lparr>OnEnter = [\<lparr>action_Type = ''play_tts'', action_Params = fmupd ''text'' name fmempty\<rparr>],
         Transitions = [], Timeout = [], TimeoutNext = [], Terminal = False\<rparr>
        fmempty\<rparr>"

definition example_handler :: DialogHandler where
  "example_handler =
     \<lparr>loader = fmupd ''support'' (example_dialog ''support'')
                 (fmupd ''sales'' (example_dialog ''sales'') fmempty),
      store_sessions = fmempty\<rparr>"

definition example_request :: "string \<Rightarrow> StartDialogRequest" where
  "example_request name =
     \<lparr>req_DialogName = name, req_SessionId = ''s1'', req_InitialState = [],
      req_Variables = fmupd ''caller'' name fmempty\<rparr>"

section \<open>Verified properties\<close>

subsection \<open>Clock arithmetic\<close>

lemma time_Sub_in_range:
  "minDuration \<le> t - u \<Longrightarrow> t - u \<le> maxDuration \<Longrightarrow> time_Sub t u = t - u"
  by (simp add: time_Sub_def)

subsection \<open>PLI debouncer\<close>

text \<open>
  C10, as stated: \<^verbatim>\<open>shouldSendPLI\<close> at time \<open>now\<close> answers true if and only if
  \<open>now - last > interval\<close>, so at \<open>now - last = interval\<close> it answers false. The code
  refuses only while \<open>now - last < interval\<close>: with last = 0 and an interval of 500 ms, the
  call at exactly 500 ms answers true.
\<close>

theorem shouldSendPLI_strict_counterexample:
  "time_Sub 500000000 0 = 500000000 \<and>
   fst (shouldSendPLI 500000000 \<lparr>lastPLI = 0, interval = 500000000\<rparr>) \<and>
   \<not> (fst (shouldSendPLI 500000000 \<lparr>lastPLI = 0, interval = 500000000\<rparr>)
        \<longleftrightarrow> interval \<lparr>lastPLI = 0, interval = 500000000\<rparr>
              < time_Sub 500000000 (lastPLI \<lparr>lastPLI = 0, interval = 500000000\<rparr>))"
  by (simp add: shouldSendPLI_def time_Sub_def maxDuration_def minDuration_def)

text \<open>
  C10, amended: \<^verbatim>\<open>shouldSendPLI\<close> at time \<open>now\<close> answers true if and only if
  \<open>now - last \<ge> interval\<close> (the saturating \<^verbatim>\<open>Time.Sub\<close>); when it answers true it sets
  last to \<open>now\<close>, and when it answers false it leaves the debouncer as it was.
\<close>

theorem shouldSendPLI_at_least_interval:
  "fst (shouldSendPLI now d) = (interval d \<le> time_Sub now (lastPLI d)) \<and>
   snd (shouldSendPLI now d) = (if fst (shouldSendPLI now d) then d\<lparr>lastPLI := now\<rparr> else d)"
  by (simp add: shouldSendPLI_def)

theorem shouldSendPLI_at_least_interval_witness:
  "fst (shouldSendPLI 700 \<lparr>lastPLI = 200, interval = 500\<rparr>) \<and>
   snd (shouldSendPLI 700 \<lparr>lastPLI = 200, interval = 500\<rparr>) = \<lparr>lastPLI = 700, interval = 500\<rparr> \<and>
   \<not> fst (shouldSendPLI 699 \<lparr>lastPLI = 200, interval = 500\<rparr>) \<and>
   snd (shouldSendPLI 699 \<lparr>lastPLI = 200, interval = 500\<rparr>) = \<lparr>lastPLI = 200, interval = 500\<rparr>"
  using shouldSendPLI_at_least_interval [of 700 "\<lparr>lastPLI = 200, interval = 500\<rparr>"]
    shouldSendPLI_at_least_interval [of 699 "\<lparr>lastPLI = 200, interval = 500\<rparr>"]
  by (simp add: time_Sub_def maxDuration_def minDuration_def)

subsection \<open>Circuit breaker\<close>

lemma RecordFailure_config: "cb_config (RecordFailure t cb) = cb_config cb"
  by (simp add: RecordFailure_def Let_def)

lemma RecordFailure_open:
  "cb_state cb = StateOpen \<Longrightarrow> cb_state (RecordFailure t cb) = StateOpen"
  by (simp add: RecordFailure_def Let_def StateOpen_def StateHalfOpen_def)

lemma RecordFailures_open:
  "cb_state cb = StateOpen \<Longrightarrow> cb_state (RecordFailures ts cb) = StateOpen"
  by (induction ts arbitrary: cb) (simp_all add: RecordFailure_open)

lemma RecordFailure_closed:
  "cb_state cb = StateClosed \<Longrightarrow>
   RecordFailure t cb =
     (if FailureThreshold (cb_config cb) \<le> cb_failures cb + 1
      then cb\<lparr>cb_failures := cb_failures cb + 1, cb_lastFailureTime := t, cb_state := StateOpen\<rparr>
      else cb\<lparr>cb_failures := cb_failures cb + 1, cb_lastFailureTime := t\<rparr>)"
  by (simp add: RecordFailure_def Let_def StateClosed_def StateHalfOpen_def)

text \<open>
  From the closed state, failures that bring the counter up to the threshold open the
  breaker; further failures keep it open.
\<close>

lemma RecordFailures_closed_opens:
  "cb_state cb = StateClosed \<Longrightarrow> ts \<noteq> [] \<Longrightarrow>
   FailureThreshold (cb_config cb) \<le> cb_failures cb + int (length ts) \<Longrightarrow>
   cb_state (RecordFailures ts cb) = StateOpen"
proof (induction ts arbitrary: cb)
  case Nil
  then show ?case by simp
next
  case (Cons t ts)
  show ?case
  proof (cases "FailureThreshold (cb_config cb) \<le> cb_failures cb + 1")
    case True
    with Cons.prems(1) have "cb_state (RecordFailure t cb) = StateOpen"
      by (simp add: RecordFailure_closed)
    then show ?thesis by (simp add: RecordFailures_open)
  next
    case False
    with Cons.prems(1) have st: "cb_state (RecordFailure t cb) = StateClosed"
      and fl: "cb_failures (RecordFailure t cb) = cb_failures cb + 1"
      by (simp_all add: RecordFailure_closed)
    from False Cons.prems(3) have ne: "ts \<noteq> []" by auto
    from Cons.prems(3) fl
    have "FailureThreshold (cb_config (RecordFailure t cb))
            \<le> cb_failures (RecordFailure t cb) + int (length ts)"
      by (simp add: RecordFailure_config)
    from Cons.IH [OF st ne this] show ?thesis by simp
  qed
qed

lemma NewCircuitBreaker_fields:
  "cb_state (NewCircuitBreaker cfg) = StateClosed"
  "cb_failures (NewCircuitBreaker cfg) = 0"
  "FailureThreshold (cb_config (NewCircuitBreaker cfg)) = FailureThreshold cfg"
  "ResetTimeout (cb_config (NewCircuitBreaker cfg)) = ResetTimeout cfg"
  "HalfOpenMaxAttempts (cb_config (NewCircuitBreaker cfg)) = max 1 (HalfOpenMaxAttempts cfg)"
  by (simp_all add: NewCircuitBreaker_def Let_def)

lemma RecordFailures_append:
  "RecordFailures (ts @ us) cb = RecordFailures us (RecordFailures ts cb)"
  by (induction ts arbitrary: cb) simp_all

lemma RecordFailure_not_half_open:
  "cb_state cb \<noteq> StateHalfOpen \<Longrightarrow>
   RecordFailure t cb =
     cb\<lparr>cb_failures := cb_failures cb + 1, cb_lastFailureTime := t,
        cb_state := (if FailureThreshold (cb_config cb) \<le> cb_failures cb + 1
                     then StateOpen else cb_state cb)\<rparr>"
  by (simp add: RecordFailure_def Let_def)

lemma RecordFailures_new:
  "RecordFailures ts (NewCircuitBreaker cfg) =
     (NewCircuitBreaker cfg)
       \<lparr>cb_failures := int (length ts),
        cb_lastFailureTime := (if ts = [] then zeroTime else last ts),
        cb_state := (if ts \<noteq> [] \<and> FailureThreshold cfg \<le> int (length ts)
                     then StateOpen else StateClosed)\<rparr>"
proof (induction ts rule: rev_induct)
  case Nil
  show ?case by (simp add: NewCircuitBreaker_def Let_def)
next
  case (snoc t ts)
  let ?cb = "RecordFailures ts (NewCircuitBreaker cfg)"
  have nh: "cb_state ?cb \<noteq> StateHalfOpen"
    by (simp add: snoc.IH StateOpen_def StateClosed_def StateHalfOpen_def)
  have "RecordFailures (ts @ [t]) (NewCircuitBreaker cfg) = RecordFailure t ?cb"
    by (simp add: RecordFailures_append)
  also have "\<dots> = ?cb\<lparr>cb_failures := cb_failures ?cb + 1, cb_lastFailureTime := t,
        cb_state := (if FailureThreshold (cb_config ?cb) \<le> cb_failures ?cb + 1
                     then StateOpen else cb_state ?cb)\<rparr>"
    by (rule RecordFailure_not_half_open [OF nh])
  also have "\<dots> = (NewCircuitBreaker cfg)
       \<lparr>cb_failures := int (length (ts @ [t])),
        cb_lastFailureTime := (if ts @ [t] = [] then zeroTime else last (ts @ [t])),
        cb_state := (if ts @ [t] \<noteq> [] \<and> FailureThreshold cfg \<le> int (length (ts @ [t]))
                     then StateOpen else StateClosed)\<rparr>"
    by (simp add: snoc.IH NewCircuitBreaker_fields)
  finally show ?case .
qed

lemma NewCircuitBreaker_eq:
  "NewCircuitBreaker cfg =
     \<lparr>cb_state = StateClosed, cb_failures = 0, cb_successes = 0, cb_lastFailureTime = zeroTime,
      cb_config = cfg\<lparr>HalfOpenMaxAttempts := max 1 (HalfOpenMaxAttempts cfg)\<rparr>\<rparr>"
  by (simp add: NewCircuitBreaker_def Let_def max_def)

lemma RecordFailure_open_or_half_open:
  "cb_state cb = StateOpen \<or> cb_state cb = StateHalfOpen \<Longrightarrow>
   RecordFailure t cb =
     cb\<lparr>cb_failures := cb_failures cb + 1, cb_lastFailureTime := t, cb_state := StateOpen\<rparr>"
  by (auto simp: RecordFailure_def Let_def)

lemma RecordSuccess_half_open:
  "cb_state cb = StateHalfOpen \<Longrightarrow>
   RecordSuccess cb =
     cb\<lparr>cb_failures := 0, cb_successes := cb_successes cb + 1,
        cb_state := (if HalfOpenMaxAttempts (cb_config cb) \<le> cb_successes cb + 1
                     then StateClosed else StateHalfOpen)\<rparr>"
  by (auto simp: RecordSuccess_def Let_def)

lemma AllowRequest_open:
  "cb_state cb = StateOpen \<Longrightarrow>
   AllowRequest now cb =
        (if ResetTimeout (cb_config cb) < time_Sub now (cb_lastFailureTime cb)
         then (True, cb\<lparr>cb_state := StateHalfOpen, cb_successes := 0\<rparr>)
         else (False, cb))"
  by (simp add: AllowRequest_def StateOpen_def StateClosed_def)

text \<open>
  C2: \<^verbatim>\<open>NewCircuitBreaker\<close> returns a closed breaker with no failures and the given
  configuration, \<open>HalfOpenMaxAttempts\<close> raised to 1 when it is smaller. With a failure threshold
  \<open>n \<ge> 1\<close>, the breaker is still closed after fewer than \<open>n\<close> consecutive \<^verbatim>\<open>RecordFailure\<close>
  calls and open after \<open>n\<close>, with \<open>n\<close> failures counted and the time of the last one stored;
  \<^verbatim>\<open>AllowRequest\<close> then answers false and changes nothing unless more than the reset timeout
  of the configuration has passed since that last failure, and otherwise answers true and
  moves to half-open with the successes reset. The same holds of every open breaker, and a
  \<^verbatim>\<open>RecordFailure\<close> on an open breaker keeps it open, counts the failure and stores its time,
  so that the timeout runs from the last failure. In half-open, requests are allowed,
  \<^verbatim>\<open>RecordSuccess\<close> clears the failures, adds one to the successes and closes the breaker
  once they reach \<open>HalfOpenMaxAttempts\<close>, and \<^verbatim>\<open>RecordFailure\<close> opens it again, counting the
  failure and storing its time. A closed breaker allows every request, and a failure on it
  is counted, its time stored, and the breaker opened when the count reaches the threshold.
\<close>

theorem circuit_breaker_transitions:
  "NewCircuitBreaker cfg =
     \<lparr>cb_state = StateClosed, cb_failures = 0, cb_successes = 0, cb_lastFailureTime = zeroTime,
      cb_config = cfg\<lparr>HalfOpenMaxAttempts := max 1 (HalfOpenMaxAttempts cfg)\<rparr>\<rparr> \<and>
   (FailureThreshold cfg = int (length ts) \<and> 1 \<le> length ts \<longrightarrow>
      RecordFailures ts (NewCircuitBreaker cfg) =
        (NewCircuitBreaker cfg)
          \<lparr>cb_failures := int (length ts), cb_lastFailureTime := last ts, cb_state := StateOpen\<rparr> \<and>
      (\<forall>k < length ts. cb_state (RecordFailures (take k ts) (NewCircuitBreaker cfg)) = StateClosed) \<and>
      AllowRequest now (RecordFailures ts (NewCircuitBreaker cfg)) =
        (if ResetTimeout cfg < time_Sub now (last ts)
         then (True, (RecordFailures ts (NewCircuitBreaker cfg))
                       \<lparr>cb_state := StateHalfOpen, cb_successes := 0\<rparr>)
         else (False, RecordFailures ts (NewCircuitBreaker cfg)))) \<and>
   (cb_state cb = StateOpen \<longrightarrow>
      AllowRequest now cb =
        (if ResetTimeout (cb_config cb) < time_Sub now (cb_lastFailureTime cb)
         then (True, cb\<lparr>cb_state := StateHalfOpen, cb_successes := 0\<rparr>)
         else (False, cb)) \<and>
      RecordFailure now cb =
        cb\<lparr>cb_failures := cb_failures cb + 1, cb_lastFailureTime := now, cb_state := StateOpen\<rparr>) \<and>
   (cb_state cb = StateHalfOpen \<longrightarrow>
      AllowRequest now cb = (True, cb) \<and>
      RecordSuccess cb =
        cb\<lparr>cb_failures := 0, cb_successes := cb_successes cb + 1,
           cb_state := (if HalfOpenMaxAttempts (cb_config cb) \<le> cb_successes cb + 1
                        then StateClosed else StateHalfOpen)\<rparr> \<and>
      RecordFailure now cb =
        cb\<lparr>cb_failures := cb_failures cb + 1, cb_lastFailureTime := now, cb_state := StateOpen\<rparr>) \<and>
   1 \<le> HalfOpenMaxAttempts (cb_config (NewCircuitBreaker cfg)) \<and>
   (cb_state cb = StateClosed \<longrightarrow>
      AllowRequest now cb = (True, cb) \<and>
      RecordFailure now cb =
        cb\<lparr>cb_failures := cb_failures cb + 1, cb_lastFailureTime := now,
           cb_state := (if FailureThreshold (cb_config cb) \<le> cb_failures cb + 1
                        then StateOpen else StateClosed)\<rparr>)"
proof (intro conjI impI allI)
  show "NewCircuitBreaker cfg =
     \<lparr>cb_state = StateClosed, cb_failures = 0, cb_successes = 0, cb_lastFailureTime = zeroTime,
      cb_config = cfg\<lparr>HalfOpenMaxAttempts := max 1 (HalfOpenMaxAttempts cfg)\<rparr>\<rparr>"
    by (rule NewCircuitBreaker_eq)
next
  assume a: "FailureThreshold cfg = int (length ts) \<and> 1 \<le> length ts"
  then have ne: "ts \<noteq> []" by auto
  from a ne show full: "RecordFailures ts (NewCircuitBreaker cfg) =
        (NewCircuitBreaker cfg)
          \<lparr>cb_failures := int (length ts), cb_lastFailureTime := last ts, cb_state := StateOpen\<rparr>"
    by (simp add: RecordFailures_new)
  have "cb_state (RecordFailures ts (NewCircuitBreaker cfg)) = StateOpen"
    by (simp add: full)
  from AllowRequest_open [OF this, of now]
  show "AllowRequest now (RecordFailures ts (NewCircuitBreaker cfg)) =
        (if ResetTimeout cfg < time_Sub now (last ts)
         then (True, (RecordFailures ts (NewCircuitBreaker cfg))
                       \<lparr>cb_state := StateHalfOpen, cb_successes := 0\<rparr>)
         else (False, RecordFailures ts (NewCircuitBreaker cfg)))"
    by (simp add: full NewCircuitBreaker_fields)
next
  fix k
  assume a: "FailureThreshold cfg = int (length ts) \<and> 1 \<le> length ts" and k: "k < length ts"
  then show "cb_state (RecordFailures (take k ts) (NewCircuitBreaker cfg)) = StateClosed"
    by (simp add: RecordFailures_new min_def)
next
  assume "cb_state cb = StateOpen"
  then show "AllowRequest now cb =
        (if ResetTimeout (cb_config cb) < time_Sub now (cb_lastFailureTime cb)
         then (True, cb\<lparr>cb_state := StateHalfOpen, cb_successes := 0\<rparr>)
         else (False, cb))"
    by (rule AllowRequest_open)
next
  assume "cb_state cb = StateOpen"
  then show "RecordFailure now cb =
        cb\<lparr>cb_failures := cb_failures cb + 1, cb_lastFailureTime := now, cb_state := StateOpen\<rparr>"
    by (simp add: RecordFailure_open_or_half_open)
next
  assume h: "cb_state cb = StateHalfOpen"
  then show "AllowRequest now cb = (True, cb)"
    by (simp add: AllowRequest_def StateOpen_def StateClosed_def StateHalfOpen_def)
  from h show "RecordSuccess cb =
        cb\<lparr>cb_failures := 0, cb_successes := cb_successes cb + 1,
           cb_state := (if HalfOpenMaxAttempts (cb_config cb) \<le> cb_successes cb + 1
                        then StateClosed else StateHalfOpen)\<rparr>"
    by (rule RecordSuccess_half_open)
  from h show "RecordFailure now cb =
        cb\<lparr>cb_failures := cb_failures cb + 1, cb_lastFailureTime := now, cb_state := StateOpen\<rparr>"
    by (simp add: RecordFailure_open_or_half_open)
next
  show "1 \<le> HalfOpenMaxAttempts (cb_config (NewCircuitBreaker cfg))"
    by (simp add: NewCircuitBreaker_fields)
next
  assume c: "cb_state cb = StateClosed"
  then show "AllowRequest now cb = (True, cb)"
    by (simp add: AllowRequest_def)
  from c have "cb_state cb \<noteq> StateHalfOpen"
    by (simp add: StateClosed_def StateHalfOpen_def)
  from RecordFailure_not_half_open [OF this, of now] c
  show "RecordFailure now cb =
        cb\<lparr>cb_failures := cb_failures cb + 1, cb_lastFailureTime := now,
           cb_state := (if FailureThreshold (cb_config cb) \<le> cb_failures cb + 1
                        then StateOpen else StateClosed)\<rparr>"
    by simp
qed


theorem circuit_breaker_transitions_witness:
  "RecordFailures [100, 200]
      (NewCircuitBreaker \<lparr>FailureThreshold = 2, ResetTimeout = 10, HalfOpenMaxAttempts = 0\<rparr>)
     = \<lparr>cb_state = ''open'', cb_failures = 2, cb_successes = 0, cb_lastFailureTime = 200,
        cb_config = \<lparr>FailureThreshold = 2, ResetTimeout = 10, HalfOpenMaxAttempts = 1\<rparr>\<rparr> \<and>
   cb_state (RecordFailures [100]
      (NewCircuitBreaker \<lparr>FailureThreshold = 2, ResetTimeout = 10, HalfOpenMaxAttempts = 0\<rparr>))
     = ''closed'' \<and>
   AllowRequest 210 (RecordFailures [100, 200]
      (NewCircuitBreaker \<lparr>FailureThreshold = 2, ResetTimeout = 10, HalfOpenMaxAttempts = 0\<rparr>))
     = (False,
        \<lparr>cb_state = ''open'', cb_failures = 2, cb_successes = 0, cb_lastFailureTime = 200,
         cb_config = \<lparr>FailureThreshold = 2, ResetTimeout = 10, HalfOpenMaxAttempts = 1\<rparr>\<rparr>) \<and>
   AllowRequest 211 (RecordFailures [100, 200]
      (NewCircuitBreaker \<lparr>FailureThreshold = 2, ResetTimeout = 10, HalfOpenMaxAttempts = 0\<rparr>))
     = (True,
        \<lparr>cb_state = ''half_open'', cb_failures = 2, cb_successes = 0, cb_lastFailureTime = 200,
         cb_config = \<lparr>FailureThreshold = 2, ResetTimeout = 10, HalfOpenMaxAttempts = 1\<rparr>\<rparr>) \<and>
   RecordFailure 205
      \<lparr>cb_state = ''open'', cb_failures = 2, cb_successes = 0, cb_lastFailureTime = 200,
       cb_config = \<lparr>FailureThreshold = 2, ResetTimeout = 10, HalfOpenMaxAttempts = 1\<rparr>\<rparr>
     = \<lparr>cb_state = ''open'', cb_failures = 3, cb_successes = 0, cb_lastFailureTime = 205,
        cb_config = \<lparr>FailureThreshold = 2, ResetTimeout = 10, HalfOpenMaxAttempts = 1\<rparr>\<rparr> \<and>
   RecordSuccess
      \<lparr>cb_state = ''half_open'', cb_failures = 2, cb_successes = 0, cb_lastFailureTime = 200,
       cb_config = \<lparr>FailureThreshold = 2, ResetTimeout = 10, HalfOpenMaxAttempts = 1\<rparr>\<rparr>
     = \<lparr>cb_state = ''closed'', cb_failures = 0, cb_successes = 1, cb_lastFailureTime = 200,
        cb_config = \<lparr>FailureThreshold = 2, ResetTimeout = 10, HalfOpenMaxAttempts = 1\<rparr>\<rparr> \<and>
   RecordFailure 300
      \<lparr>cb_state = ''half_open'', cb_failures = 2, cb_successes = 0, cb_lastFailureTime = 200,
       cb_config = \<lparr>FailureThreshold = 2, ResetTimeout = 10, HalfOpenMaxAttempts = 1\<rparr>\<rparr>
     = \<lparr>cb_state = ''open'', cb_failures = 3, cb_successes = 0, cb_lastFailureTime = 300,
        cb_config = \<lparr>FailureThreshold = 2, ResetTimeout = 10, HalfOpenMaxAttempts = 1\<rparr>\<rparr>"
proof -
  let ?cfg = "\<lparr>FailureThreshold = 2, ResetTimeout = 10, HalfOpenMaxAttempts = 0\<rparr>"
  let ?open = "\<lparr>cb_state = ''open'', cb_failures = 2, cb_successes = 0, cb_lastFailureTime = 200,
       cb_config = \<lparr>FailureThreshold = 2, ResetTimeout = 10, HalfOpenMaxAttempts = 1\<rparr>\<rparr>"
  let ?half = "\<lparr>cb_state = ''half_open'', cb_failures = 2, cb_successes = 0, cb_lastFailureTime = 200,
       cb_config = \<lparr>FailureThreshold = 2, ResetTimeout = 10, HalfOpenMaxAttempts = 1\<rparr>\<rparr>"
  let ?ts = "[100 :: int, 200]"
  have pre: "FailureThreshold ?cfg = int (length ?ts) \<and> 1 \<le> length ?ts"
    by simp
  have op: "cb_state ?open = StateOpen" and ho: "cb_state ?half = StateHalfOpen"
    by (simp_all add: StateOpen_def StateHalfOpen_def)
  have "NewCircuitBreaker ?cfg =
     \<lparr>cb_state = StateClosed, cb_failures = 0, cb_successes = 0, cb_lastFailureTime = zeroTime,
      cb_config = ?cfg\<lparr>HalfOpenMaxAttempts := max 1 (HalfOpenMaxAttempts ?cfg)\<rparr>\<rparr>"
    using circuit_breaker_transitions [of ?cfg ?ts 210 ?open] by blast
  then have new: "NewCircuitBreaker ?cfg =
      \<lparr>cb_state = ''closed'', cb_failures = 0, cb_successes = 0, cb_lastFailureTime = zeroTime,
       cb_config = \<lparr>FailureThreshold = 2, ResetTimeout = 10, HalfOpenMaxAttempts = 1\<rparr>\<rparr>"
    by (simp add: StateClosed_def)
  have "RecordFailures ?ts (NewCircuitBreaker ?cfg) =
        (NewCircuitBreaker ?cfg)
          \<lparr>cb_failures := int (length ?ts), cb_lastFailureTime := last ?ts, cb_state := StateOpen\<rparr>"
    using circuit_breaker_transitions [of ?cfg ?ts 210 ?open] pre by blast
  then have 1: "RecordFailures ?ts (NewCircuitBreaker ?cfg) = ?open"
    by (simp only: new) (simp add: StateOpen_def)
  have "\<forall>k < length ?ts.
      cb_state (RecordFailures (take k ?ts) (NewCircuitBreaker ?cfg)) = StateClosed"
    using circuit_breaker_transitions [of ?cfg ?ts 210 ?open] pre by blast
  from this [THEN spec, of 1]
  have 2: "cb_state (RecordFailures [100] (NewCircuitBreaker ?cfg)) = ''closed''"
    by (simp add: StateClosed_def)
  have "AllowRequest 210 (RecordFailures ?ts (NewCircuitBreaker ?cfg)) =
        (if ResetTimeout ?cfg < time_Sub 210 (last ?ts)
         then (True, (RecordFailures ?ts (NewCircuitBreaker ?cfg))
                       \<lparr>cb_state := StateHalfOpen, cb_successes := 0\<rparr>)
         else (False, RecordFailures ?ts (NewCircuitBreaker ?cfg)))"
    using circuit_breaker_transitions [of ?cfg ?ts 210 ?open] pre by blast
  then have 3: "AllowRequest 210 (RecordFailures ?ts (NewCircuitBreaker ?cfg)) = (False, ?open)"
    by (simp only: 1) (simp add: time_Sub_def maxDuration_def minDuration_def)
  have "AllowRequest 211 (RecordFailures ?ts (NewCircuitBreaker ?cfg)) =
        (if ResetTimeout ?cfg < time_Sub 211 (last ?ts)
         then (True, (RecordFailures ?ts (NewCircuitBreaker ?cfg))
                       \<lparr>cb_state := StateHalfOpen, cb_successes := 0\<rparr>)
         else (False, RecordFailures ?ts (NewCircuitBreaker ?cfg)))"
    using circuit_breaker_transitions [of ?cfg ?ts 211 ?open] pre by blast
  then have 4: "AllowRequest 211 (RecordFailures ?ts (NewCircuitBreaker ?cfg)) = (True, ?half)"
    by (simp only: 1) (simp add: time_Sub_def maxDuration_def minDuration_def StateHalfOpen_def)
  have "RecordFailure 205 ?open =
      ?open\<lparr>cb_failures := cb_failures ?open + 1, cb_lastFailureTime := 205, cb_state := StateOpen\<rparr>"
    using circuit_breaker_transitions [of ?cfg ?ts 205 ?open] op by blast
  then have 5: "RecordFailure 205 ?open = ?open\<lparr>cb_failures := 3, cb_lastFailureTime := 205\<rparr>"
    by (simp add: StateOpen_def)
  have "RecordSuccess ?half =
        ?half\<lparr>cb_failures := 0, cb_successes := cb_successes ?half + 1,
           cb_state := (if HalfOpenMaxAttempts (cb_config ?half) \<le> cb_successes ?half + 1
                        then StateClosed else StateHalfOpen)\<rparr>"
    using circuit_breaker_transitions [of ?cfg ?ts 300 ?half] ho by blast
  then have 6: "RecordSuccess ?half
      = ?half\<lparr>cb_failures := 0, cb_successes := 1, cb_state := ''closed''\<rparr>"
    by (simp add: StateClosed_def)
  have "RecordFailure 300 ?half =
      ?half\<lparr>cb_failures := cb_failures ?half + 1, cb_lastFailureTime := 300, cb_state := StateOpen\<rparr>"
    using circuit_breaker_transitions [of ?cfg ?ts 300 ?half] ho by blast
  then have 7: "RecordFailure 300 ?half
      = ?half\<lparr>cb_failures := 3, cb_lastFailureTime := 300, cb_state := ''open''\<rparr>"
    by (simp add: StateOpen_def)
  from 1 2 3 4 5 6 7 show ?thesis by simp
qed

subsection \<open>Session history\<close>

lemma NewSession_maxHistory: "maxHistory (NewSession now sid d st) = 1000"
  by (simp add: NewSession_def DefaultMaxHistory_def)

lemma go_quot_nonneg: "0 \<le> a \<Longrightarrow> 0 < b \<Longrightarrow> go_quot a b = a div b"
  by (cases "a = 0") (simp_all add: go_quot_def)

lemma RecordTransition_maxHistory:
  "RecordTransition now f t tr s = Inr s' \<Longrightarrow> maxHistory s' = maxHistory s"
  by (auto simp: RecordTransition_def Let_def split: if_splits)

text \<open>
  C4: \<^verbatim>\<open>RecordTransition(from, to, trigger)\<close> sets the current state to \<open>to\<close> and appends
  exactly one record, the new one, to the history. When the history has reached the cap,
  the oldest \<open>cap div 10\<close> records are dropped first, so the history shrinks by exactly that
  many before the new record is appended. \<^verbatim>\<open>NewSession\<close>, the only constructor, sets the
  cap to 1000; the statement holds for every cap of at least 10.
\<close>

theorem RecordTransition_history:
  assumes "10 \<le> maxHistory s"
  shows "\<exists>s'. RecordTransition now from_state to_state trigger s = Inr s' \<and>
     CurrentState s' = to_state \<and>
     maxHistory s' = maxHistory s \<and>
     History s' =
       (if maxHistory s \<le> int (length (History s))
        then drop (nat (maxHistory s div 10)) (History s)
        else History s)
       @ [\<lparr>FromState = from_state, ToState = to_state, Trigger = trigger, Timestamp = now\<rparr>] \<and>
     length (History s') =
       (if maxHistory s \<le> int (length (History s))
        then length (History s) - nat (maxHistory s div 10) + 1
        else length (History s) + 1)"
proof -
  from assms have q: "go_quot (maxHistory s) 10 = maxHistory s div 10"
    by (simp add: go_quot_nonneg)
  from assms have one: "1 \<le> maxHistory s div 10" by simp
  have le: "maxHistory s div 10 \<le> maxHistory s" using assms by simp
  show ?thesis
  proof (cases "maxHistory s \<le> int (length (History s))")
    case True
    with le have "maxHistory s div 10 \<le> int (length (History s))" by linarith
    with True one q show ?thesis
      by (simp add: RecordTransition_def Let_def)
  next
    case False
    then show ?thesis
      by (simp add: RecordTransition_def Let_def)
  qed
qed

theorem RecordTransition_history_witness:
  "10 \<le> maxHistory example_full_session \<and>
   length (History example_full_session) = 1000 \<and>
   (\<exists>s'. RecordTransition 5 ''start'' ''menu'' ''one'' example_full_session = Inr s' \<and>
      CurrentState s' = ''menu'' \<and>
      History s' = replicate 900 example_record
        @ [\<lparr>FromState = ''start'', ToState = ''menu'', Trigger = ''one'', Timestamp = 5\<rparr>] \<and>
      length (History s') = 901)"
  using RecordTransition_history [of example_full_session 5 "''start''" "''menu''" "''one''"]
  by (auto simp: example_full_session_def NewSession_def DefaultMaxHistory_def)

subsection \<open>Transition evaluation\<close>

text \<open>
  Trimming takes the Unicode white space with the ASCII one, and leaves bytes that only
  look like the beginning of an encoded space.
\<close>

lemma TrimSpace_examples:
  "TrimSpace ([CHR 0xC2, CHR 0xA0] @ ''false'' @ [CHR 0xE2, CHR 0x80, CHR 0x83, CHR 0x0A]) = ''false''"
  "TrimSpace ('' a  b '' @ [CHR 0x09]) = ''a  b''"
  "TrimSpace ([CHR 0xC2] @ '' x '' @ [CHR 0x80, CHR 0x83]) = [CHR 0xC2] @ '' x '' @ [CHR 0x80, CHR 0x83]"
  "TrimSpace [] = []"
  by (simp_all add: TrimSpace_def TrimLeft_def TrimRight_def spaceWidth_def whiteSpace_def)

lemma EvalCondition_unicode_space:
  "EvalCondition (\<lambda>tmpl session. Inr ([CHR 0xC2, CHR 0xA0] @ ''false'')) ''{{.Flag}}'' s = Inr False"
  by (simp add: EvalCondition_def TrimSpace_def TrimLeft_def TrimRight_def spaceWidth_def
      whiteSpace_def)

lemma EvalCondition_cases:
  "EvalCondition r (Condition t) s =
     (if cond_fails r t s then Inl (projl (r (Condition t) s))
      else Inr (cond_holds r t s))"
  by (cases "r (Condition t) s")
    (simp_all add: EvalCondition_def cond_fails_def cond_holds_def truthy_def Let_def)

lemma cond_fails_not_holds: "cond_fails r t s \<Longrightarrow> \<not> cond_holds r t s"
  by (cases "r (Condition t) s") (simp_all add: cond_fails_def cond_holds_def)

lemma evalTransitionList_decisive:
  "evalTransitionList r ts ev s =
     (case find (\<lambda>t. Event t = ev \<and> (cond_holds r t s \<or> cond_fails r t s)) ts of
        None \<Rightarrow> Inr ([], [])
      | Some t \<Rightarrow>
          if cond_fails r t s
          then Inl (EvalConditionFailed (Condition t) (projl (r (Condition t) s)))
          else Inr (Target t, Actions t))"
proof (induction ts)
  case Nil
  show ?case by simp
next
  case (Cons t ts)
  show ?case
  proof (cases "Event t = ev")
    case False
    with Cons.IH show ?thesis by simp
  next
    case True
    show ?thesis
    proof (cases "cond_fails r t s")
      case True
      with \<open>Event t = ev\<close> show ?thesis by (simp add: EvalCondition_cases)
    next
      case False
      with \<open>Event t = ev\<close> Cons.IH show ?thesis by (simp add: EvalCondition_cases)
    qed
  qed
qed

lemma find_no_failure:
  "\<forall>t \<in> set ts. Event t = ev \<longrightarrow> \<not> cond_fails r t s \<Longrightarrow>
   find (\<lambda>t. Event t = ev \<and> (cond_holds r t s \<or> cond_fails r t s)) ts
     = find (\<lambda>t. Event t = ev \<and> cond_holds r t s) ts"
  by (induction ts) auto

text \<open>
  C5, as stated: for every state, event and session the result is the target and actions
  of the first transition with the incoming event whose condition is empty or renders to a
  text that is, trimmed, not empty, not \<open>false\<close> and not \<open><no value>\<close>, and the empty
  target without an error when there is none. In \<open>example_state\<close> the first speech
  transition has a condition that does not render; the code returns that error, and not
  the target of the unconditional speech transition after it.
\<close>

theorem EvaluateTransitions_render_error_counterexample:
  "spec_first_match render_literal (Transitions example_state) ''speech''
      (NewSession 0 ''s1'' ''support'' ''start'') = (''process'', []) \<and>
   EvaluateTransitions render_literal example_state ''speech''
      (NewSession 0 ''s1'' ''support'' ''start'')
     = Inl (EvalConditionFailed ''{{'' ''template: action not rendered'') \<and>
   EvaluateTransitions render_literal example_state ''speech''
      (NewSession 0 ''s1'' ''support'' ''start'')
     \<noteq> Inr (spec_first_match render_literal (Transitions example_state) ''speech''
          (NewSession 0 ''s1'' ''support'' ''start''))"
  by (simp add: EvaluateTransitions_def spec_first_match_def example_state_def
      EvalCondition_def cond_holds_def render_literal_def)

text \<open>
  C5, amended: transitions are examined in declaration order, skipping those whose event
  differs from the incoming event; the first examined transition whose condition either
  fails to render or holds decides. If it fails to render, evaluation stops and the error
  is returned; if it holds (the condition is empty, or renders, trimmed, to a non-empty
  text other than \<open>false\<close> and \<open><no value>\<close>), its target and actions are returned. If no
  transition decides, the empty target is returned with no error. In particular, when no
  condition of a transition with the incoming event fails to render, the result is that of
  the rule as the specification words it.
\<close>

theorem EvaluateTransitions_first_decisive:
  "EvaluateTransitions r st ev s =
     (case find (\<lambda>t. Event t = ev \<and> (cond_holds r t s \<or> cond_fails r t s)) (Transitions st) of
        None \<Rightarrow> Inr ([], [])
      | Some t \<Rightarrow>
          if cond_fails r t s
          then Inl (EvalConditionFailed (Condition t) (projl (r (Condition t) s)))
          else Inr (Target t, Actions t)) \<and>
   ((\<forall>t \<in> set (Transitions st). Event t = ev \<longrightarrow> \<not> cond_fails r t s) \<longrightarrow>
      EvaluateTransitions r st ev s = Inr (spec_first_match r (Transitions st) ev s))"
proof (intro conjI impI)
  show first: "EvaluateTransitions r st ev s =
     (case find (\<lambda>t. Event t = ev \<and> (cond_holds r t s \<or> cond_fails r t s)) (Transitions st) of
        None \<Rightarrow> Inr ([], [])
      | Some t \<Rightarrow>
          if cond_fails r t s
          then Inl (EvalConditionFailed (Condition t) (projl (r (Condition t) s)))
          else Inr (Target t, Actions t))"
    by (simp add: EvaluateTransitions_def evalTransitionList_decisive)
  assume ok: "\<forall>t \<in> set (Transitions st). Event t = ev \<longrightarrow> \<not> cond_fails r t s"
  show "EvaluateTransitions r st ev s = Inr (spec_first_match r (Transitions st) ev s)"
  proof (cases "find (\<lambda>t. Event t = ev \<and> cond_holds r t s) (Transitions st)")
    case None
    with ok show ?thesis
      by (simp add: first find_no_failure spec_first_match_def)
  next
    case (Some t)
    then have "cond_holds r t s" by (auto simp: find_Some_iff)
    then have "\<not> cond_fails r t s" using cond_fails_not_holds by blast
    with Some ok show ?thesis
      by (simp add: first find_no_failure spec_first_match_def)
  qed
qed

theorem EvaluateTransitions_first_decisive_witness:
  "list_all (\<lambda>t. \<not> cond_fails render_literal t (NewSession 0 ''s1'' ''support'' ''start''))
      (Transitions example_state_ok) \<and>
   EvaluateTransitions render_literal example_state_ok ''speech''
      (NewSession 0 ''s1'' ''support'' ''start'')
     = Inr (''process'', [\<lparr>action_Type = ''hangup'', action_Params = fmempty\<rparr>]) \<and>
   EvaluateTransitions render_literal example_state_ok ''hook_result''
      (NewSession 0 ''s1'' ''support'' ''start'') = Inr ([], [])"
  using
    EvaluateTransitions_first_decisive
      [of render_literal example_state_ok "''speech''" "NewSession 0 ''s1'' ''support'' ''start''"]
    EvaluateTransitions_first_decisive
      [of render_literal example_state_ok "''hook_result''" "NewSession 0 ''s1'' ''support'' ''start''"]
  by (simp add: example_state_ok_def spec_first_match_def cond_holds_def cond_fails_def
      render_literal_def truthy_def TrimSpace_def TrimLeft_def TrimRight_def spaceWidth_def
      whiteSpace_def)

subsection \<open>Rooms: admission of peers\<close>

lemma AddPeer_failure_unchanged:
  "isl (fst (AddPeer lib r p)) \<Longrightarrow> snd (AddPeer lib r p) = r"
  by (auto simp: AddPeer_def Let_def split: option.splits prod.splits if_splits)

lemma AddPeer_maxPeers: "maxPeers (snd (AddPeer lib r p)) = maxPeers r"
  by (auto simp: AddPeer_def Let_def split: option.splits prod.splits)

lemma AddPeer_peers_dom:
  "fmdom (peers (snd (AddPeer lib r p))) =
     (if isl (fst (AddPeer lib r p)) then fmdom (peers r)
      else finsert (peer_id p) (fmdom (peers r)))"
  by (auto simp: AddPeer_def Let_def split: option.splits prod.splits)

lemma AddPeer_success_iff:
  "\<not> isl (fst (AddPeer lib r p)) \<longleftrightarrow>
     \<not> closed r \<and> PeerCount r < maxPeers r \<and>
     (e2eeRequired r \<longrightarrow> ValidateE2EERoom True (encryption p) = None)"
  by (auto simp: AddPeer_def Let_def split: option.splits prod.splits)

lemma AddPeer_PeerCount:
  assumes "PeerCount r \<le> maxPeers r"
  shows "PeerCount (snd (AddPeer lib r p)) \<le> maxPeers r"
proof (cases "isl (fst (AddPeer lib r p))")
  case True
  with assms show ?thesis by (simp add: AddPeer_failure_unchanged)
next
  case False
  then have "PeerCount r < maxPeers r" by (simp add: AddPeer_success_iff)
  moreover have "PeerCount (snd (AddPeer lib r p)) \<le> PeerCount r + 1"
    using False by (simp add: PeerCount_def AddPeer_peers_dom fcard_finsert_if)
  ultimately show ?thesis by linarith
qed

lemma RemovePeer_PeerCount: "PeerCount (RemovePeer peerID r) \<le> PeerCount r"
proof (cases "fmlookup (peers r) peerID")
  case None
  then show ?thesis by (simp add: RemovePeer_def)
next
  case (Some peer)
  have "fcard (fmdom (fmdrop peerID (peers r))) \<le> fcard (fmdom (peers r))"
    by (rule fcard_mono) auto
  with Some show ?thesis by (simp add: RemovePeer_def PeerCount_def)
qed

lemma RemovePeer_maxPeers: "maxPeers (RemovePeer peerID r) = maxPeers r"
  by (simp add: RemovePeer_def split: option.splits)

lemma room_step_capacity:
  assumes "PeerCount r \<le> maxPeers r"
  shows "PeerCount (room_step lib r op) \<le> maxPeers (room_step lib r op)"
proof (cases op)
  case (OpAddPeer p)
  with assms show ?thesis by (simp add: AddPeer_PeerCount AddPeer_maxPeers)
next
  case (OpRemovePeer peerID)
  have "PeerCount (RemovePeer peerID r) \<le> PeerCount r" by (rule RemovePeer_PeerCount)
  with assms OpRemovePeer show ?thesis by (simp add: RemovePeer_maxPeers)
next
  case OpClose
  have "0 \<le> PeerCount r" by (simp add: PeerCount_def)
  with assms have "0 \<le> maxPeers r" by linarith
  with assms OpClose show ?thesis by (simp add: Close_def PeerCount_def fcard_fempty)
qed

lemma room_run_capacity:
  "PeerCount r \<le> maxPeers r \<Longrightarrow> PeerCount (room_run lib r ops) \<le> maxPeers (room_run lib r ops)"
  unfolding room_run_def
  by (induction ops arbitrary: r) (simp_all add: room_step_capacity)

lemma NewRoom_capacity: "PeerCount (NewRoom rid m md opts) \<le> maxPeers (NewRoom rid m md opts)"
  by (simp add: NewRoom_def PeerCount_def fcard_fempty)

text \<open>
  C6: \<^verbatim>\<open>AddPeer\<close> fails when the room is closed; it fails when the peer count has reached
  \<open>maxPeers\<close>; when the room requires E2EE it fails for a peer without encryption metadata
  and for one whose algorithm is empty (with the E2EE errors when the room is open and has
  space); and every failure returns the room, its peers among the rest, as it was. So a
  peer count within \<open>maxPeers\<close> stays within it, and in every room reached from \<^verbatim>\<open>NewRoom\<close>
  by \<^verbatim>\<open>AddPeer\<close>, \<^verbatim>\<open>RemovePeer\<close> and \<^verbatim>\<open>Close\<close> calls the peer count is at most \<open>maxPeers\<close>.
\<close>

theorem AddPeer_admission:
  "(closed r \<longrightarrow> AddPeer lib r p = (Inl (ErrRoomClosed (room_id r)), r)) \<and>
   (\<not> closed r \<and> maxPeers r \<le> PeerCount r \<longrightarrow>
      AddPeer lib r p = (Inl (ErrRoomFull (room_id r) (PeerCount r) (maxPeers r)), r)) \<and>
   (e2eeRequired r \<and> (case encryption p of None \<Rightarrow> True | Some e \<Rightarrow> Algorithm e = []) \<longrightarrow>
      isl (fst (AddPeer lib r p)) \<and>
      (\<not> closed r \<and> PeerCount r < maxPeers r \<longrightarrow>
         AddPeer lib r p =
           (Inl (if encryption p = None then ErrE2EENoEncryptionInfo else ErrE2EENoAlgorithm), r))) \<and>
   (isl (fst (AddPeer lib r p)) \<longrightarrow>
      snd (AddPeer lib r p) = r \<and> peers (snd (AddPeer lib r p)) = peers r) \<and>
   (PeerCount r \<le> maxPeers r \<longrightarrow>
      PeerCount (snd (AddPeer lib r p)) \<le> maxPeers (snd (AddPeer lib r p))) \<and>
   PeerCount (room_run lib (NewRoom rid m md opts) ops)
     \<le> maxPeers (room_run lib (NewRoom rid m md opts) ops)"
proof (intro conjI impI)
  assume "closed r"
  then show "AddPeer lib r p = (Inl (ErrRoomClosed (room_id r)), r)"
    by (simp add: AddPeer_def)
next
  assume "\<not> closed r \<and> maxPeers r \<le> PeerCount r"
  then show "AddPeer lib r p = (Inl (ErrRoomFull (room_id r) (PeerCount r) (maxPeers r)), r)"
    by (simp add: AddPeer_def)
next
  assume e: "e2eeRequired r \<and> (case encryption p of None \<Rightarrow> True | Some e \<Rightarrow> Algorithm e = [])"
  then have v: "ValidateE2EERoom True (encryption p) \<noteq> None"
    by (cases "encryption p") (simp_all add: ValidateE2EERoom_def)
  with e show "isl (fst (AddPeer lib r p))"
    using AddPeer_success_iff [of lib r p] by auto
  assume "\<not> closed r \<and> PeerCount r < maxPeers r"
  with e show "AddPeer lib r p =
      (Inl (if encryption p = None then ErrE2EENoEncryptionInfo else ErrE2EENoAlgorithm), r)"
    by (cases "encryption p") (simp_all add: AddPeer_def ValidateE2EERoom_def)
next
  assume f: "isl (fst (AddPeer lib r p))"
  then show "snd (AddPeer lib r p) = r" by (rule AddPeer_failure_unchanged)
  from f show "peers (snd (AddPeer lib r p)) = peers r" by (simp add: AddPeer_failure_unchanged)
next
  assume "PeerCount r \<le> maxPeers r"
  then show "PeerCount (snd (AddPeer lib r p)) \<le> maxPeers (snd (AddPeer lib r p))"
    by (simp add: AddPeer_PeerCount AddPeer_maxPeers)
next
  show "PeerCount (room_run lib (NewRoom rid m md opts) ops)
      \<le> maxPeers (room_run lib (NewRoom rid m md opts) ops)"
    by (rule room_run_capacity [OF NewRoom_capacity])
qed


lemma room_step_maxPeers: "maxPeers (room_step lib r op) = maxPeers r"
  by (cases op) (simp_all add: AddPeer_maxPeers RemovePeer_maxPeers Close_def)

lemma room_run_maxPeers: "maxPeers (room_run lib r ops) = maxPeers r"
  unfolding room_run_def
  by (induction ops arbitrary: r) (simp_all add: room_step_maxPeers)

text \<open>The example rooms, read off their definitions.\<close>

lemma example_room_facts:
  "closed example_closed_room"
  "room_id example_closed_room = ''room1''"
  "PeerCount example_full_room = 1" "maxPeers example_full_room = 1"
  "\<not> closed example_full_room" "room_id example_full_room = ''room1''"
  "e2eeRequired example_e2ee_room" "\<not> closed example_e2ee_room"
  "PeerCount example_e2ee_room = 0" "maxPeers example_e2ee_room = 1000"
  "PeerCount example_room = 1" "maxPeers example_room = 2"
  "encryption (example_peer i a) = None"
  "maxPeers (NewRoom ''room1'' 1 fmempty example_opts) = 1"
  by (simp_all add: example_closed_room_def example_full_room_def example_e2ee_room_def
      example_room_def example_peer_def NewRoom_def Close_def PeerCount_def
      fcard_finsert_if fcard_fempty)

theorem AddPeer_admission_witness:
  "closed example_closed_room \<and>
   AddPeer lib_ok example_closed_room (example_peer ''B'' True)
     = (Inl (ErrRoomClosed ''room1''), example_closed_room) \<and>
   PeerCount example_full_room = 1 \<and> maxPeers example_full_room = 1 \<and>
   AddPeer lib_ok example_full_room (example_peer ''B'' True)
     = (Inl (ErrRoomFull ''room1'' 1 1), example_full_room) \<and>
   e2eeRequired example_e2ee_room \<and>
   AddPeer lib_ok example_e2ee_room (example_peer ''B'' True)
     = (Inl ErrE2EENoEncryptionInfo, example_e2ee_room) \<and>
   AddPeer lib_ok example_e2ee_room
       ((example_peer ''B'' True)
          \<lparr>encryption := Some \<lparr>Algorithm = [], KeyID = 7, SenderKey = [1, 2]\<rparr>\<rparr>)
     = (Inl ErrE2EENoAlgorithm, example_e2ee_room) \<and>
   PeerCount (snd (AddPeer lib_ok example_room (example_peer ''B'' True))) \<le> 2 \<and>
   PeerCount (room_run lib_ok (NewRoom ''room1'' 1 fmempty example_opts) example_ops) \<le> 1"
proof (intro conjI)
  show "closed example_closed_room" "PeerCount example_full_room = 1"
    "maxPeers example_full_room = 1" "e2eeRequired example_e2ee_room"
    by (simp_all add: example_room_facts)
  show "AddPeer lib_ok example_closed_room (example_peer ''B'' True)
     = (Inl (ErrRoomClosed ''room1''), example_closed_room)"
    using AddPeer_admission [of example_closed_room lib_ok "example_peer ''B'' True"
      "''room1''" 1 fmempty example_opts example_ops]
    by (simp add: example_room_facts)
  show "AddPeer lib_ok example_full_room (example_peer ''B'' True)
     = (Inl (ErrRoomFull ''room1'' 1 1), example_full_room)"
    using AddPeer_admission [of example_full_room lib_ok "example_peer ''B'' True"
      "''room1''" 1 fmempty example_opts example_ops]
    by (simp add: example_room_facts)
  show "AddPeer lib_ok example_e2ee_room (example_peer ''B'' True)
     = (Inl ErrE2EENoEncryptionInfo, example_e2ee_room)"
    using AddPeer_admission [of example_e2ee_room lib_ok "example_peer ''B'' True"
      "''room1''" 1 fmempty example_opts example_ops]
    by (simp add: example_room_facts)
  show "AddPeer lib_ok example_e2ee_room
       ((example_peer ''B'' True)
          \<lparr>encryption := Some \<lparr>Algorithm = [], KeyID = 7, SenderKey = [1, 2]\<rparr>\<rparr>)
     = (Inl ErrE2EENoAlgorithm, example_e2ee_room)"
    using AddPeer_admission [of example_e2ee_room lib_ok
      "(example_peer ''B'' True)
         \<lparr>encryption := Some \<lparr>Algorithm = [], KeyID = 7, SenderKey = [1, 2]\<rparr>\<rparr>"
      "''room1''" 1 fmempty example_opts example_ops]
    by (simp add: example_room_facts)
  show "PeerCount (snd (AddPeer lib_ok example_room (example_peer ''B'' True))) \<le> 2"
    using AddPeer_admission [of example_room lib_ok "example_peer ''B'' True"
      "''room1''" 1 fmempty example_opts example_ops]
    by (simp add: example_room_facts AddPeer_maxPeers)
  show "PeerCount (room_run lib_ok (NewRoom ''room1'' 1 fmempty example_opts) example_ops) \<le> 1"
    using AddPeer_admission [of example_room lib_ok "example_peer ''B'' True"
      "''room1''" 1 fmempty example_opts example_ops]
    by (simp add: example_room_facts room_run_maxPeers)
qed

subsection \<open>Rooms: auto-subscription of a joining peer\<close>

lemma NewDownTrackFor_trackID: "dt_trackID (NewDownTrackFor pt remote q) = remote_ID remote"
  by (simp add: NewDownTrackFor_def)

lemma Subscribe_Inr_iff:
  "Subscribe lib pt p q mt ms = Inr (sub, pt', p') \<longleftrightarrow>
     (\<exists>remote. pickSourceRemote pt q = Some remote \<and>
        NewTrackLocalStaticRTP_ok lib remote \<and>
        AddTrack_ok lib (peer_id p) (remote_ID remote) \<and>
        sub = NewSubscription pt p (NewDownTrackFor pt remote q) q mt ms \<and>
        pt' = pt\<lparr>pt_subscribers := fmupd (peer_id p) sub (pt_subscribers pt)\<rparr> \<and>
        p' = p\<lparr>downTracks := fmupd (remote_ID remote) (NewDownTrackFor pt remote q) (downTracks p)\<rparr>)"
  by (cases "pickSourceRemote pt q")
    (auto simp: Subscribe_def AddDownTrack_def NewDownTrackFor_def Let_def)

lemma Subscribe_peer_id:
  "Subscribe lib pt p q mt ms = Inr (sub, pt', p') \<Longrightarrow> peer_id p' = peer_id p"
  by (auto simp: Subscribe_Inr_iff)

lemma subscribedTrack_peer_id:
  "peer_id q = peer_id p \<Longrightarrow> subscribedTrack lib q pt = subscribedTrack lib p pt"
  by (cases "pickSourceRemote pt QualityHigh")
    (simp_all add: subscribedTrack_def Subscribe_def AddDownTrack_def NewSubscription_def Let_def)

text \<open>What one best-effort subscription at high quality leaves in the track.\<close>

lemma subscribedTrack_eq:
  "subscribedTrack lib p pt =
     (case pickSourceRemote pt QualityHigh of
        None \<Rightarrow> pt
      | Some remote \<Rightarrow>
          if NewTrackLocalStaticRTP_ok lib remote \<and> AddTrack_ok lib (peer_id p) (remote_ID remote)
          then pt\<lparr>pt_subscribers :=
                 fmupd (peer_id p)
                   \<lparr>sub_subscriber = peer_id p,
                    sub_downTrack = Some (NewDownTrackFor pt remote QualityHigh),
                    currentQuality = QualityHigh, maxTemporalLayer = - 1,
                    maxSpatialLayer = - 1, paused = False\<rparr>
                   (pt_subscribers pt)\<rparr>
          else pt)"
  by (cases "pickSourceRemote pt QualityHigh")
    (simp_all add: subscribedTrack_def Subscribe_def AddDownTrack_def NewSubscription_def
      NewDownTrackFor_trackID Let_def QualityHigh_def)

lemma autoSubscribeTracks_result:
  "autoSubscribeTracks lib ts p = (ts', p') \<Longrightarrow>
   peer_id p' = peer_id p \<and>
   ts' = map (\<lambda>(tid, pt).
            (tid, if pt_kind pt = RTPCodecTypeAudio \<and> pt_publisher pt \<noteq> peer_id p
                  then subscribedTrack lib p pt else pt)) ts"
proof (induction ts arbitrary: p ts' p')
  case Nil
  then show ?case by simp
next
  case (Cons a ts)
  obtain tid pt where a: "a = (tid, pt)" by (cases a)
  show ?case
  proof (cases "pt_kind pt = RTPCodecTypeAudio \<and> pt_publisher pt \<noteq> peer_id p")
    case False
    obtain r1 p1 where rec: "autoSubscribeTracks lib ts p = (r1, p1)"
      by (cases "autoSubscribeTracks lib ts p")
    from Cons.prems False rec have "ts' = (tid, pt) # r1" "p' = p1"
      by (auto simp: a)
    with Cons.IH [OF rec] False show ?thesis by (auto simp: a)
  next
    case True
    show ?thesis
    proof (cases "Subscribe lib pt p QualityHigh (- 1) (- 1)")
      case (Inl err)
      obtain r1 p1 where rec: "autoSubscribeTracks lib ts p = (r1, p1)"
        by (cases "autoSubscribeTracks lib ts p")
      from Cons.prems True Inl rec have "ts' = (tid, pt) # r1" "p' = p1"
        by (auto simp: a)
      with Cons.IH [OF rec] True Inl show ?thesis
        by (auto simp: a subscribedTrack_def)
    next
      case (Inr res)
      obtain sub pt1 q where res: "res = (sub, pt1, q)" by (cases res)
      from Inr res have q: "peer_id q = peer_id p" by (auto dest: Subscribe_peer_id)
      obtain r1 p1 where rec: "autoSubscribeTracks lib ts q = (r1, p1)"
        by (cases "autoSubscribeTracks lib ts q")
      from Cons.prems True Inr res rec have "ts' = (tid, pt1) # r1" "p' = p1"
        by (auto simp: a)
      with Cons.IH [OF rec] True Inr res q show ?thesis
        by (auto simp: a subscribedTrack_def
            subscribedTrack_peer_id [OF q, unfolded subscribedTrack_def])
    qed
  qed
qed

text \<open>
  C7, as stated: in a room created with auto-subscribe-audio, every successful
  \<^verbatim>\<open>AddPeer\<close> of a peer subscribes it to every audio track of another publisher. In
  \<open>example_room\<close>, which has the flag and one audio track published by A, peer B joins with
  \<^verbatim>\<open>AutoSubscribeAudio\<close> off in its own configuration: \<^verbatim>\<open>AddPeer\<close> succeeds, no library call
  fails, and the track has no subscription of B.
\<close>

theorem AddPeer_auto_subscribe_counterexample:
  "autoSubscribeAudio example_room \<and>
   pt_kind example_track = RTPCodecTypeAudio \<and>
   pt_publisher example_track \<noteq> peer_id (example_peer ''B'' False) \<and>
   fst (AddPeer lib_ok example_room (example_peer ''B'' False)) = Inr [''mic''] \<and>
   publisherTracks (snd (AddPeer lib_ok example_room (example_peer ''B'' False)))
     = [(''mic'', example_track)] \<and>
   fmlookup (pt_subscribers example_track) ''B'' = None"
  by (simp add: AddPeer_def example_room_def example_peer_def example_track_def NewRoom_def
      PeerCount_def DefaultPeerConfig_def fcard_finsert_if fcard_fempty Let_def)

text \<open>
  C7, amended: a successful \<^verbatim>\<open>AddPeer\<close> of a peer \<open>p\<close> returns the available tracks. In a
  room created with auto-subscribe-audio, when the own configuration of \<open>p\<close> has
  \<^verbatim>\<open>AutoSubscribeAudio\<close> set, it attempts, for every existing audio publisher track whose
  publisher is not \<open>p\<close>, one subscription of \<open>p\<close> at quality high, max temporal layer -1
  and max spatial layer -1; the other tracks are left as they are. An attempt that succeeds
  records that subscription under the id of \<open>p\<close>; an attempt that fails (no layer with a
  remote track, or a failing library call) leaves the track as it was, and \<^verbatim>\<open>AddPeer\<close>
  succeeds all the same. A peer whose configuration has \<^verbatim>\<open>AutoSubscribeAudio\<close> off is
  subscribed to nothing: every track of the room is left as it was and the peer enters the
  room as it came, with no down track added; so it is in a room created without
  auto-subscribe-audio.
\<close>

theorem AddPeer_auto_subscribe:
  assumes "\<not> closed r" and "PeerCount r < maxPeers r"
    and "e2eeRequired r \<longrightarrow> ValidateE2EERoom True (encryption p) = None"
  shows "fst (AddPeer lib r p) = Inr (map fst (publisherTracks r)) \<and>
     publisherTracks (snd (AddPeer lib r p)) =
       (if autoSubscribeAudio r \<and> cfg_AutoSubscribeAudio (peerConfig p)
        then map (\<lambda>(tid, pt).
                   (tid, if pt_kind pt = RTPCodecTypeAudio \<and> pt_publisher pt \<noteq> peer_id p
                         then subscribedTrack lib p pt else pt))
               (publisherTracks r)
        else publisherTracks r) \<and>
     (\<forall>pt. subscribedTrack lib p pt =
        (case pickSourceRemote pt QualityHigh of
           None \<Rightarrow> pt
         | Some remote \<Rightarrow>
             if NewTrackLocalStaticRTP_ok lib remote \<and> AddTrack_ok lib (peer_id p) (remote_ID remote)
             then pt\<lparr>pt_subscribers :=
                    fmupd (peer_id p)
                      \<lparr>sub_subscriber = peer_id p,
                       sub_downTrack = Some (NewDownTrackFor pt remote QualityHigh),
                       currentQuality = QualityHigh, maxTemporalLayer = - 1,
                       maxSpatialLayer = - 1, paused = False\<rparr>
                      (pt_subscribers pt)\<rparr>
             else pt)) \<and>
     (\<not> (autoSubscribeAudio r \<and> cfg_AutoSubscribeAudio (peerConfig p)) \<longrightarrow>
        fmlookup (peers (snd (AddPeer lib r p))) (peer_id p) = Some p)"
proof (cases "autoSubscribeAudio r \<and> cfg_AutoSubscribeAudio (peerConfig p)")
  case True
  obtain ts' p' where loop: "autoSubscribeTracks lib (publisherTracks r) p = (ts', p')"
    by (cases "autoSubscribeTracks lib (publisherTracks r) p")
  have v: "(if e2eeRequired r then ValidateE2EERoom True (encryption p) else None) = None"
    using assms(3) by simp
  from assms(1,2) True v loop
  have res: "fst (AddPeer lib r p) = Inr (map fst (publisherTracks r))"
    and tracks: "publisherTracks (snd (AddPeer lib r p)) = ts'"
    by (simp_all add: AddPeer_def Let_def)
  from autoSubscribeTracks_result [OF loop] tracks res True show ?thesis
    by (simp add: subscribedTrack_eq)
next
  case False
  have v: "(if e2eeRequired r then ValidateE2EERoom True (encryption p) else None) = None"
    using assms(3) by simp
  from assms(1,2) False v
  have res: "fst (AddPeer lib r p) = Inr (map fst (publisherTracks r))"
    and tracks: "publisherTracks (snd (AddPeer lib r p)) = publisherTracks r"
    and peer: "fmlookup (peers (snd (AddPeer lib r p))) (peer_id p) = Some p"
    by (auto simp: AddPeer_def Let_def)
  from tracks res peer False show ?thesis
    by (auto simp: subscribedTrack_eq)
qed

theorem AddPeer_auto_subscribe_witness:
  "\<not> closed example_room \<and> PeerCount example_room < maxPeers example_room \<and>
   autoSubscribeAudio example_room \<and>
   cfg_AutoSubscribeAudio (peerConfig (example_peer ''B'' True)) \<and>
   fst (AddPeer lib_ok example_room (example_peer ''B'' True)) = Inr [''mic''] \<and>
   publisherTracks (snd (AddPeer lib_ok example_room (example_peer ''B'' True))) =
     [(''mic'',
       example_track\<lparr>pt_subscribers :=
         fmupd ''B''
           \<lparr>sub_subscriber = ''B'',
            sub_downTrack =
              Some \<lparr>dt_sourceID = ''A'', dt_trackID = ''mic'', dt_rid = [], dt_muted = False\<rparr>,
            currentQuality = 3, maxTemporalLayer = - 1, maxSpatialLayer = - 1,
            paused = False\<rparr>
           fmempty\<rparr>)] \<and>
   \<not> cfg_AutoSubscribeAudio (peerConfig (example_peer ''B'' False)) \<and>
   publisherTracks (snd (AddPeer lib_ok example_room (example_peer ''B'' False))) =
     [(''mic'', example_track)]"
proof -
  have pre: "\<not> closed example_room" "PeerCount example_room < maxPeers example_room"
    "e2eeRequired example_room \<longrightarrow> ValidateE2EERoom True (encryption (example_peer ''B'' True)) = None"
    and flags: "autoSubscribeAudio example_room"
    "cfg_AutoSubscribeAudio (peerConfig (example_peer ''B'' True))"
    by (simp_all add: example_room_def example_peer_def NewRoom_def PeerCount_def
        fcard_finsert_if fcard_fempty)
  have pre': "e2eeRequired example_room \<longrightarrow>
      ValidateE2EERoom True (encryption (example_peer ''B'' False)) = None"
    and off: "\<not> cfg_AutoSubscribeAudio (peerConfig (example_peer ''B'' False))"
    by (simp_all add: example_room_def example_peer_def NewRoom_def)
  have tr: "publisherTracks example_room = [(''mic'', example_track)]"
    by (simp add: example_room_def)
  have src: "pickSourceRemote example_track QualityHigh = Some example_remote"
    by (simp add: pickSourceRemote_def example_track_def)
  from AddPeer_auto_subscribe [OF pre, of lib_ok] flags
  have on: "fst (AddPeer lib_ok example_room (example_peer ''B'' True)) = Inr [''mic''] \<and>
   publisherTracks (snd (AddPeer lib_ok example_room (example_peer ''B'' True))) =
     [(''mic'',
       example_track\<lparr>pt_subscribers :=
         fmupd ''B''
           \<lparr>sub_subscriber = ''B'',
            sub_downTrack =
              Some \<lparr>dt_sourceID = ''A'', dt_trackID = ''mic'', dt_rid = [], dt_muted = False\<rparr>,
            currentQuality = 3, maxTemporalLayer = - 1, maxSpatialLayer = - 1,
            paused = False\<rparr>
           fmempty\<rparr>)]"
    by (simp add: tr src)
      (simp add: example_peer_def example_track_def example_remote_def lib_ok_def
        NewDownTrackFor_def QualityHigh_def)
  from AddPeer_auto_subscribe [OF pre(1,2) pre', of lib_ok] off
  have "publisherTracks (snd (AddPeer lib_ok example_room (example_peer ''B'' False))) =
     [(''mic'', example_track)]"
    by (simp add: tr)
  with on pre flags off show ?thesis by simp
qed

subsection \<open>SVC forwarding\<close>

lemma svcForward_subset: "set (svcForward lib vp9 sub pkt) \<subseteq> {pkt}"
  by (auto simp: svcForward_def DownTrack_Write_def split: option.splits if_splits)

lemma svcForward_vp9_within:
  assumes "0 \<le> maxSpatialLayer sub" and "0 \<le> maxTemporalLayer sub"
    and "w \<in> set (svcForward lib True sub pkt)"
  shows "\<not> aboveLayers lib (maxSpatialLayer sub) (maxTemporalLayer sub) w"
proof -
  from assms(3) have w: "w = pkt" using svcForward_subset by fastforce
  show ?thesis
  proof (cases "rtp_Unmarshal lib pkt")
    case None
    then show ?thesis by (simp add: w aboveLayers_def)
  next
    case (Some payload)
    show ?thesis
    proof (cases "vp9_Unmarshal lib payload")
      case None
      with Some show ?thesis by (simp add: w aboveLayers_def)
    next
      case (Some layers)
      obtain sid tid where l: "layers = (sid, tid)" by (cases layers)
      from assms \<open>rtp_Unmarshal lib pkt = Some payload\<close> Some l show ?thesis
        by (auto simp: w aboveLayers_def svcForward_def split: option.splits if_splits)
    qed
  qed
qed

lemma RunSVCForwarder_vp9_within:
  assumes "isVP9 (remote_MimeType remote)" and "0 \<le> S" and "0 \<le> T"
  shows "list_all (hasLimits S T) evs \<Longrightarrow> w \<in> set (RunSVCForwarder lib remote evs) \<Longrightarrow>
         \<not> aboveLayers lib S T w"
proof (induction evs)
  case Nil
  then show ?case by simp
next
  case (Cons ev evs)
  show ?case
  proof (cases ev)
    case CtxDone
    with Cons.prems show ?thesis by simp
  next
    case ReadError
    with Cons.prems show ?thesis by simp
  next
    case (ReadPacket pkt sub)
    from Cons.prems(1) ReadPacket
    have lim: "maxSpatialLayer sub = S" "maxTemporalLayer sub = T"
      and rest: "list_all (hasLimits S T) evs"
      by simp_all
    from Cons.prems(2) ReadPacket assms(1)
    have "w \<in> set (svcForward lib True sub pkt) \<or> w \<in> set (RunSVCForwarder lib remote evs)"
      by simp
    then show ?thesis
    proof
      assume "w \<in> set (svcForward lib True sub pkt)"
      with assms(2,3) lim show ?thesis using svcForward_vp9_within [of sub w lib pkt] by simp
    next
      assume "w \<in> set (RunSVCForwarder lib remote evs)"
      with Cons.IH rest show ?thesis by simp
    qed
  qed
qed

text \<open>
  C9: the codec of a packet is that of the track it is read from, fixed when the forwarder
  starts. For every SVC subscription whose limits are \<open>S \<ge> 0\<close> (spatial) and \<open>T \<ge> 0\<close>
  (temporal) throughout, no packet of a VP9 track that parses as VP9 with \<open>SID > S\<close> or
  \<open>TID > T\<close> is ever written to the down track of the subscription. Packets of codecs
  other than VP9 are forwarded unconditionally, that is with no look at their layers or at
  the limits: each one goes to \<^verbatim>\<open>DownTrack.Write\<close> as the packets of every track do, which
  leaves out what is read while the subscription is paused or has no down track, and writes
  nothing on a muted down track. The filter drops no more than it has to: a VP9 packet
  within the limits is forwarded in the same way.
\<close>

theorem RunSVCForwarder_layers:
  "(isVP9 (remote_MimeType remote) \<and> 0 \<le> S \<and> 0 \<le> T \<and> list_all (hasLimits S T) evs \<longrightarrow>
      (\<forall>w \<in> set (RunSVCForwarder lib remote evs). \<not> aboveLayers lib S T w)) \<and>
   (\<not> isVP9 (remote_MimeType remote) \<longrightarrow>
      RunSVCForwarder lib remote (ReadPacket pkt sub # evs) =
        (case sub_downTrack sub of
           None \<Rightarrow> []
         | Some dt \<Rightarrow> if paused sub \<or> dt_muted dt then [] else [pkt])
        @ RunSVCForwarder lib remote evs) \<and>
   (isVP9 (remote_MimeType remote) \<and>
      rtp_Unmarshal lib pkt = Some payload \<and> vp9_Unmarshal lib payload = Some (sid, tid) \<and>
      (maxSpatialLayer sub < 0 \<or> uint sid \<le> maxSpatialLayer sub) \<and>
      (maxTemporalLayer sub < 0 \<or> uint tid \<le> maxTemporalLayer sub) \<longrightarrow>
      RunSVCForwarder lib remote (ReadPacket pkt sub # evs) =
        (case sub_downTrack sub of
           None \<Rightarrow> []
         | Some dt \<Rightarrow> if paused sub \<or> dt_muted dt then [] else [pkt])
        @ RunSVCForwarder lib remote evs)"
proof (intro conjI impI ballI)
  fix w
  assume "isVP9 (remote_MimeType remote) \<and> 0 \<le> S \<and> 0 \<le> T \<and> list_all (hasLimits S T) evs"
    and "w \<in> set (RunSVCForwarder lib remote evs)"
  then show "\<not> aboveLayers lib S T w"
    using RunSVCForwarder_vp9_within [of remote S T evs w lib] by simp
next
  assume "\<not> isVP9 (remote_MimeType remote)"
  then show "RunSVCForwarder lib remote (ReadPacket pkt sub # evs) =
        (case sub_downTrack sub of
           None \<Rightarrow> []
         | Some dt \<Rightarrow> if paused sub \<or> dt_muted dt then [] else [pkt])
        @ RunSVCForwarder lib remote evs"
    by (simp add: svcForward_def DownTrack_Write_def split: option.splits)
next
  assume a: "isVP9 (remote_MimeType remote) \<and>
      rtp_Unmarshal lib pkt = Some payload \<and> vp9_Unmarshal lib payload = Some (sid, tid) \<and>
      (maxSpatialLayer sub < 0 \<or> uint sid \<le> maxSpatialLayer sub) \<and>
      (maxTemporalLayer sub < 0 \<or> uint tid \<le> maxTemporalLayer sub)"
  then have "svcForward lib True sub pkt =
        (case sub_downTrack sub of
           None \<Rightarrow> []
         | Some dt \<Rightarrow> if paused sub \<or> dt_muted dt then [] else [pkt])"
    by (cases "sub_downTrack sub") (auto simp: svcForward_def DownTrack_Write_def)
  with a show "RunSVCForwarder lib remote (ReadPacket pkt sub # evs) =
        (case sub_downTrack sub of
           None \<Rightarrow> []
         | Some dt \<Rightarrow> if paused sub \<or> dt_muted dt then [] else [pkt])
        @ RunSVCForwarder lib remote evs"
    by simp
qed

theorem RunSVCForwarder_layers_witness:
  "isVP9 (remote_MimeType (example_video ''video/VP9'')) \<and>
   list_all (hasLimits 1 1)
     [ReadPacket [128, 0, 0] (example_sub False), ReadPacket [128, 2, 0] (example_sub False),
      ReadPacket [128, 1, 3] (example_sub False), ReadPacket [128, 1, 1] (example_sub False)] \<and>
   aboveLayers example_rtp_lib 1 1 [128, 2, 0] \<and>
   [128, 2, 0] \<notin> set (RunSVCForwarder example_rtp_lib (example_video ''video/VP9'')
     [ReadPacket [128, 0, 0] (example_sub False), ReadPacket [128, 2, 0] (example_sub False),
      ReadPacket [128, 1, 3] (example_sub False), ReadPacket [128, 1, 1] (example_sub False)]) \<and>
   \<not> isVP9 (remote_MimeType (example_video ''video/VP8'')) \<and>
   RunSVCForwarder example_rtp_lib (example_video ''video/VP8'')
     [ReadPacket [128, 2, 0] (example_sub False)] = [[128, 2, 0]] \<and>
   RunSVCForwarder example_rtp_lib (example_video ''video/VP9'')
     [ReadPacket [128, 1, 1] (example_sub False)] = [[128, 1, 1]]"
proof -
  let ?evs = "[ReadPacket [128, 0, 0] (example_sub False), ReadPacket [128, 2, 0] (example_sub False),
      ReadPacket [128, 1, 3] (example_sub False), ReadPacket [128, 1, 1] (example_sub False)]"
  have vp9: "isVP9 (remote_MimeType (example_video ''video/VP9''))"
    and vp8: "\<not> isVP9 (remote_MimeType (example_video ''video/VP8''))"
    by (simp_all add: isVP9_def example_video_def)
  have lim: "list_all (hasLimits 1 1) ?evs" by (simp add: example_sub_def)
  have above: "aboveLayers example_rtp_lib 1 1 [128, 2, 0]"
    by (simp add: aboveLayers_def example_rtp_lib_def)
  have parse: "rtp_Unmarshal example_rtp_lib [128, 1, 1] = Some [1, 1]"
    "vp9_Unmarshal example_rtp_lib [1, 1] = Some (1, 1)"
    by (simp_all add: example_rtp_lib_def)
  from RunSVCForwarder_layers
    [of "example_video ''video/VP9''" 1 1 ?evs example_rtp_lib "[128, 2, 0]" "example_sub False"
        "[2, 0]" 2 0]
    vp9 lim above
  have out: "[128, 2, 0] \<notin> set (RunSVCForwarder example_rtp_lib (example_video ''video/VP9'') ?evs)"
    by (metis zero_le_one)
  from RunSVCForwarder_layers
    [of "example_video ''video/VP8''" 1 1 "[]" example_rtp_lib "[128, 2, 0]" "example_sub False"
        "[2, 0]" 2 0]
    vp8
  have fwd: "RunSVCForwarder example_rtp_lib (example_video ''video/VP8'')
     [ReadPacket [128, 2, 0] (example_sub False)] = [[128, 2, 0]]"
    by (simp add: example_sub_def)
  from RunSVCForwarder_layers
    [of "example_video ''video/VP9''" 1 1 "[]" example_rtp_lib "[128, 1, 1]" "example_sub False"
        "[1, 1]" 1 1]
    vp9 parse
  have within: "RunSVCForwarder example_rtp_lib (example_video ''video/VP9'')
     [ReadPacket [128, 1, 1] (example_sub False)] = [[128, 1, 1]]"
    by (simp add: example_sub_def)
  from vp9 lim above out vp8 fwd within show ?thesis by blast
qed

subsection \<open>Webhook URL validation\<close>

lemma checkResolved_rejects:
  "s \<in> set ips \<Longrightarrow> ParseIP lib s = Some ip \<Longrightarrow> isPrivateIP ip \<Longrightarrow>
   \<exists>s' \<in> set ips. checkResolved lib ips = Some (ErrPrivateIP s')"
proof (induction ips)
  case Nil
  then show ?case by simp
next
  case (Cons a ips)
  show ?case
  proof (cases "\<exists>ip'. ParseIP lib a = Some ip' \<and> isPrivateIP ip'")
    case True
    then show ?thesis by auto
  next
    case False
    with Cons.prems have "s \<in> set ips" by auto
    from Cons.IH [OF this Cons.prems(2,3)] False show ?thesis
      by (cases "ParseIP lib a") auto
  qed
qed

lemma checkResolved_accepts:
  "checkResolved lib ips = None \<longleftrightarrow>
     (\<forall>s \<in> set ips. case ParseIP lib s of None \<Rightarrow> True | Some ip \<Rightarrow> \<not> isPrivateIP ip)"
  by (induction ips) (auto split: option.splits)

text \<open>The addresses of the table of the repository's own test, read by the model.\<close>

lemma isPrivateIP_test_table:
  "\<not> isPrivateIP (ipv4 8 8 8 8)" "\<not> isPrivateIP (ipv4 1 1 1 1)"
  "isPrivateIP (ipv4 10 0 0 1)" "isPrivateIP (ipv4 172 16 0 1)"
  "isPrivateIP (ipv4 172 31 255 255)" "\<not> isPrivateIP (ipv4 172 32 0 0)"
  "isPrivateIP (ipv4 192 168 0 1)" "isPrivateIP (ipv4 127 0 0 1)"
  "isPrivateIP (ipv4 169 254 1 1)" "isPrivateIP (ipv4 0 0 0 0)"
  "isPrivateIP (ipv4 224 0 0 1)" "isPrivateIP (ipv4 255 255 255 255)"
  by code_simp+

text \<open>The reserved ranges: the table of the code against the ranges of the specification.\<close>

lemma privateRanges_eq:
  "privateRanges =
    [\<lparr>net_IP = [10, 0, 0, 0], net_Mask = [255, 0, 0, 0]\<rparr>,
     \<lparr>net_IP = [172, 16, 0, 0], net_Mask = [255, 240, 0, 0]\<rparr>,
     \<lparr>net_IP = [192, 168, 0, 0], net_Mask = [255, 255, 0, 0]\<rparr>,
     \<lparr>net_IP = [127, 0, 0, 0], net_Mask = [255, 0, 0, 0]\<rparr>,
     \<lparr>net_IP = [169, 254, 0, 0], net_Mask = [255, 255, 0, 0]\<rparr>,
     \<lparr>net_IP = [0, 0, 0, 0, 0, 0, 0, 0, 0, 0, 0, 0, 0, 0, 0, 1],
      net_Mask = [255, 255, 255, 255, 255, 255, 255, 255, 255, 255, 255, 255, 255, 255, 255, 255]\<rparr>,
     \<lparr>net_IP = [252, 0, 0, 0, 0, 0, 0, 0, 0, 0, 0, 0, 0, 0, 0, 0],
      net_Mask = [254, 0, 0, 0, 0, 0, 0, 0, 0, 0, 0, 0, 0, 0, 0, 0]\<rparr>,
     \<lparr>net_IP = [254, 128, 0, 0, 0, 0, 0, 0, 0, 0, 0, 0, 0, 0, 0, 0],
      net_Mask = [255, 192, 0, 0, 0, 0, 0, 0, 0, 0, 0, 0, 0, 0, 0, 0]\<rparr>,
     \<lparr>net_IP = [100, 64, 0, 0], net_Mask = [255, 192, 0, 0]\<rparr>,
     \<lparr>net_IP = [0, 0, 0, 0], net_Mask = [255, 0, 0, 0]\<rparr>,
     \<lparr>net_IP = [192, 0, 0, 0], net_Mask = [255, 255, 255, 0]\<rparr>,
     \<lparr>net_IP = [192, 0, 2, 0], net_Mask = [255, 255, 255, 0]\<rparr>,
     \<lparr>net_IP = [198, 51, 100, 0], net_Mask = [255, 255, 255, 0]\<rparr>,
     \<lparr>net_IP = [203, 0, 113, 0], net_Mask = [255, 255, 255, 0]\<rparr>,
     \<lparr>net_IP = [198, 18, 0, 0], net_Mask = [255, 254, 0, 0]\<rparr>,
     \<lparr>net_IP = [224, 0, 0, 0], net_Mask = [240, 0, 0, 0]\<rparr>,
     \<lparr>net_IP = [240, 0, 0, 0], net_Mask = [240, 0, 0, 0]\<rparr>,
     \<lparr>net_IP = [255, 255, 255, 255], net_Mask = [255, 255, 255, 255]\<rparr>]"
  by code_simp

lemma To4_ipv4: "To4 (ipv4 a b c d) = Some [a, b, c, d]"
  by (simp add: To4_def ipv4_def nth_append)

lemma To4_four: "To4 [A, B, C, D] = Some [A, B, C, D]"
  by (simp add: To4_def)

lemma Contains_v4_net:
  "Contains \<lparr>net_IP = [A, B, C, D], net_Mask = [m0, m1, m2, m3]\<rparr> (ipv4 a b c d) =
     (A AND m0 = a AND m0 \<and> B AND m1 = b AND m1 \<and> C AND m2 = c AND m2 \<and> D AND m3 = d AND m3)"
  by (simp add: Contains_def networkNumberAndMask_def To4_ipv4 To4_four Let_def
      upt_rec [of 0] upt_rec [of 1] upt_rec [of 2] upt_rec [of 3])

lemma Contains_v6_net:
  "length nip = 16 \<Longrightarrow> length m = 16 \<Longrightarrow> To4 nip = None \<Longrightarrow>
   \<not> Contains \<lparr>net_IP = nip, net_Mask = m\<rparr> (ipv4 a b c d)"
  by (simp add: Contains_def networkNumberAndMask_def To4_ipv4 Let_def)

lemma and_not_mask_eq_iff:
  fixes b c :: "8 word"
  shows "(b AND NOT (mask k) = c AND NOT (mask k)) = (unat b div 2 ^ k = unat c div 2 ^ k)"
proof -
  have "(b AND NOT (mask k) = c AND NOT (mask k)) = (drop_bit k b = drop_bit k c)"
  proof
    assume eq: "b AND NOT (mask k) = c AND NOT (mask k)"
    show "drop_bit k b = drop_bit k c"
    proof (rule bit_eqI)
      fix n
      from eq have "bit (b AND NOT (mask k)) (k + n) = bit (c AND NOT (mask k)) (k + n)" by simp
      then show "bit (drop_bit k b) n = bit (drop_bit k c) n"
        by (auto simp: bit_simps dest: bit_imp_le_length)
    qed
  next
    assume eq: "drop_bit k b = drop_bit k c"
    show "b AND NOT (mask k) = c AND NOT (mask k)"
    proof (rule bit_eqI)
      fix n
      show "bit (b AND NOT (mask k)) n = bit (c AND NOT (mask k)) n"
      proof (cases "n < k")
        case True
        then show ?thesis by (simp add: bit_simps)
      next
        case False
        then obtain m where n: "n = k + m" using le_Suc_ex not_less by blast
        from eq have "bit (drop_bit k b) m = bit (drop_bit k c) m" by simp
        then show ?thesis by (simp add: bit_simps n)
      qed
    qed
  qed
  also have "\<dots> = (unat (drop_bit k b) = unat (drop_bit k c))"
    by (simp add: word_unat_eq_iff)
  also have "\<dots> = (unat b div 2 ^ k = unat c div 2 ^ k)"
    by (simp only: unat_drop_bit_eq) (simp add: drop_bit_eq_div)
  finally show ?thesis .
qed

lemma byte_masks:
  "(0xFF :: 8 word) = NOT (mask 0)" "(0xFE :: 8 word) = NOT (mask 1)"
  "(0xF0 :: 8 word) = NOT (mask 4)" "(0xC0 :: 8 word) = NOT (mask 6)"
  "(0 :: 8 word) = NOT (mask 8)"
  by (simp_all add: mask_eq_exp_minus_1)

lemma byte_prefix:
  fixes x :: "8 word"
  shows "(x AND 240 = 16) = (16 \<le> unat x \<and> unat x \<le> 31)"
    and "(x AND 192 = 64) = (64 \<le> unat x \<and> unat x \<le> 127)"
    and "(x AND 254 = 18) = (18 \<le> unat x \<and> unat x \<le> 19)"
    and "(x AND 240 = 224) = (224 \<le> unat x \<and> unat x \<le> 239)"
    and "(x AND 240 = 240) = (240 \<le> unat x)"
    and "(x AND 254 = 252) = (252 \<le> unat x \<and> unat x \<le> 253)"
    and "(x AND 192 = 128) = (128 \<le> unat x \<and> unat x \<le> 191)"
proof -
  have lt: "unat x < 256" using unsigned_less [of x, where 'a = nat] by simp
  show "(x AND 240 = 16) = (16 \<le> unat x \<and> unat x \<le> 31)"
    using and_not_mask_eq_iff [of x 4 16, folded byte_masks] by auto
  show "(x AND 192 = 64) = (64 \<le> unat x \<and> unat x \<le> 127)"
    using and_not_mask_eq_iff [of x 6 64, folded byte_masks] by auto
  show "(x AND 254 = 18) = (18 \<le> unat x \<and> unat x \<le> 19)"
    using and_not_mask_eq_iff [of x 1 18, folded byte_masks] by auto
  show "(x AND 240 = 224) = (224 \<le> unat x \<and> unat x \<le> 239)"
    using and_not_mask_eq_iff [of x 4 224, folded byte_masks] by auto
  show "(x AND 240 = 240) = (240 \<le> unat x)"
    using and_not_mask_eq_iff [of x 4 240, folded byte_masks] lt by auto
  show "(x AND 254 = 252) = (252 \<le> unat x \<and> unat x \<le> 253)"
    using and_not_mask_eq_iff [of x 1 252, folded byte_masks] by auto
  show "(x AND 192 = 128) = (128 \<le> unat x \<and> unat x \<le> 191)"
    using and_not_mask_eq_iff [of x 6 128, folded byte_masks] by auto
qed

lemma and_FF: "x AND 255 = (x :: 8 word)"
proof -
  have "take_bit 8 x = x" by (rule take_bit_word_eq_self) simp
  then have "x AND mask 8 = x" by (simp add: take_bit_eq_mask)
  moreover have "(mask 8 :: 8 word) = 255" by (simp add: mask_eq_exp_minus_1)
  ultimately show ?thesis by simp
qed

lemma isPrivateIP_ipv4_bytes:
  "isPrivateIP (ipv4 a b c d) =
     (unat a = 10 \<or> (unat a = 172 \<and> 16 \<le> unat b \<and> unat b \<le> 31) \<or>
      (unat a = 192 \<and> unat b = 168) \<or> unat a = 127 \<or> (unat a = 169 \<and> unat b = 254) \<or>
      (unat a = 100 \<and> 64 \<le> unat b \<and> unat b \<le> 127) \<or> unat a = 0 \<or>
      (unat a = 192 \<and> unat b = 0 \<and> unat c = 0) \<or>
      (unat a = 192 \<and> unat b = 0 \<and> unat c = 2) \<or>
      (unat a = 198 \<and> unat b = 51 \<and> unat c = 100) \<or>
      (unat a = 203 \<and> unat b = 0 \<and> unat c = 113) \<or>
      (unat a = 198 \<and> 18 \<le> unat b \<and> unat b \<le> 19) \<or>
      (224 \<le> unat a \<and> unat a \<le> 239) \<or> 240 \<le> unat a \<or>
      (unat a = 255 \<and> unat b = 255 \<and> unat c = 255 \<and> unat d = 255))"
  unfolding isPrivateIP_def privateRanges_eq
  by (simp add: Contains_v4_net Contains_v6_net To4_def byte_prefix and_FF)
    (simp add: word_unat_eq_iff)

lemma ipv4_value_div:
  assumes "a < 256" "b < 256" "c < 256" "d < 256"
  shows "ipv4_value a b c d div 16777216 = a"
    and "ipv4_value a b c d div 65536 = a * 256 + b"
    and "ipv4_value a b c d div 256 = (a * 256 + b) * 256 + c"
    and "ipv4_value a b c d div 1048576 = a * 16 + b div 16"
    and "ipv4_value a b c d div 4194304 = a * 4 + b div 64"
    and "ipv4_value a b c d div 131072 = a * 128 + b div 2"
    and "ipv4_value a b c d div 268435456 = a div 16"
  using assms unfolding ipv4_value_def by simp_all

lemma split_digit:
  fixes a q m n :: nat
  assumes "q < m"
  shows "(a * m + q = n) = (a = n div m \<and> q = n mod m)"
proof
  assume "a * m + q = n"
  with assms show "a = n div m \<and> q = n mod m" by auto
next
  assume "a = n div m \<and> q = n mod m"
  then show "a * m + q = n" by simp
qed

lemma quotients:
  fixes b :: nat
  shows "(b div 16 = Suc 0) = (16 \<le> b \<and> b \<le> 31)"
    and "(b div 64 = Suc 0) = (64 \<le> b \<and> b \<le> 127)"
    and "(b div 2 = 9) = (18 \<le> b \<and> b \<le> 19)"
    and "(b div 16 = 14) = (224 \<le> b \<and> b \<le> 239)"
    and "b < 256 \<Longrightarrow> (b div 16 = 15) = (240 \<le> b)"
    and "b < 256 \<Longrightarrow> b div 16 < 16" and "b < 256 \<Longrightarrow> b div 64 < 4"
    and "b < 256 \<Longrightarrow> b div 2 < 128"
  by arith+

lemma digits_inj:
  fixes a b A B m :: nat
  assumes "b < m" "B < m"
  shows "(a * m + b = A * m + B) = (a = A \<and> b = B)"
  using assms by (auto simp: split_digit)

lemma in_cidr4_24:
  assumes "a < 256" "b < 256" "c < 256" "d < 256" "A < 256" "B < 256" "C < 256" "D < 256"
  shows "in_cidr4 (ipv4_value A B C D) 24 (ipv4_value a b c d) = (a = A \<and> b = B \<and> c = C)"
proof -
  have "in_cidr4 (ipv4_value A B C D) 24 (ipv4_value a b c d)
      = ((a * 256 + b) * 256 + c = (A * 256 + B) * 256 + C)"
    using assms by (simp only: in_cidr4_def ipv4_value_div) (simp add: ipv4_value_div)
  also have "\<dots> = (a * 256 + b = A * 256 + B \<and> c = C)"
    using assms by (simp only: digits_inj)
  also have "\<dots> = (a = A \<and> b = B \<and> c = C)"
    using assms by (simp only: digits_inj) simp
  finally show ?thesis .
qed

lemma in_cidr4_32:
  assumes "a < 256" "b < 256" "c < 256" "d < 256" "A < 256" "B < 256" "C < 256" "D < 256"
  shows "in_cidr4 (ipv4_value A B C D) 32 (ipv4_value a b c d)
           = (a = A \<and> b = B \<and> c = C \<and> d = D)"
proof -
  have "in_cidr4 (ipv4_value A B C D) 32 (ipv4_value a b c d)
      = (((a * 256 + b) * 256 + c) * 256 + d = ((A * 256 + B) * 256 + C) * 256 + D)"
    by (simp add: in_cidr4_def ipv4_value_def)
  also have "\<dots> = ((a * 256 + b) * 256 + c = (A * 256 + B) * 256 + C \<and> d = D)"
    using assms by (simp only: digits_inj)
  also have "\<dots> = ((a * 256 + b = A * 256 + B \<and> c = C) \<and> d = D)"
    using assms by (simp only: digits_inj)
  also have "\<dots> = (((a = A \<and> b = B) \<and> c = C) \<and> d = D)"
    using assms by (simp only: digits_inj)
  finally show ?thesis by simp
qed

lemma in_cidr4_cases:
  assumes "a < 256" "b < 256" "c < 256" "d < 256"
  shows "in_cidr4 (ipv4_value 10 0 0 0) 8 (ipv4_value a b c d) = (a = 10)"
    and "in_cidr4 (ipv4_value 172 16 0 0) 12 (ipv4_value a b c d) = (a = 172 \<and> 16 \<le> b \<and> b \<le> 31)"
    and "in_cidr4 (ipv4_value 192 168 0 0) 16 (ipv4_value a b c d) = (a = 192 \<and> b = 168)"
    and "in_cidr4 (ipv4_value 127 0 0 0) 8 (ipv4_value a b c d) = (a = 127)"
    and "in_cidr4 (ipv4_value 169 254 0 0) 16 (ipv4_value a b c d) = (a = 169 \<and> b = 254)"
    and "in_cidr4 (ipv4_value 100 64 0 0) 10 (ipv4_value a b c d) = (a = 100 \<and> 64 \<le> b \<and> b \<le> 127)"
    and "in_cidr4 (ipv4_value 0 0 0 0) 8 (ipv4_value a b c d) = (a = 0)"
    and "in_cidr4 (ipv4_value 192 0 0 0) 24 (ipv4_value a b c d) = (a = 192 \<and> b = 0 \<and> c = 0)"
    and "in_cidr4 (ipv4_value 192 0 2 0) 24 (ipv4_value a b c d) = (a = 192 \<and> b = 0 \<and> c = 2)"
    and "in_cidr4 (ipv4_value 198 51 100 0) 24 (ipv4_value a b c d) = (a = 198 \<and> b = 51 \<and> c = 100)"
    and "in_cidr4 (ipv4_value 203 0 113 0) 24 (ipv4_value a b c d) = (a = 203 \<and> b = 0 \<and> c = 113)"
    and "in_cidr4 (ipv4_value 198 18 0 0) 15 (ipv4_value a b c d) = (a = 198 \<and> 18 \<le> b \<and> b \<le> 19)"
    and "in_cidr4 (ipv4_value 224 0 0 0) 4 (ipv4_value a b c d) = (224 \<le> a \<and> a \<le> 239)"
    and "in_cidr4 (ipv4_value 240 0 0 0) 4 (ipv4_value a b c d) = (240 \<le> a)"
    and "in_cidr4 (ipv4_value 255 255 255 255) 32 (ipv4_value a b c d)
           = (a = 255 \<and> b = 255 \<and> c = 255 \<and> d = 255)"
proof -
  note q = quotients(6-8) [OF assms(2)]
  show "in_cidr4 (ipv4_value 10 0 0 0) 8 (ipv4_value a b c d) = (a = 10)"
    and "in_cidr4 (ipv4_value 127 0 0 0) 8 (ipv4_value a b c d) = (a = 127)"
    and "in_cidr4 (ipv4_value 0 0 0 0) 8 (ipv4_value a b c d) = (a = 0)"
    using assms by (simp_all add: in_cidr4_def ipv4_value_div)
  show "in_cidr4 (ipv4_value 172 16 0 0) 12 (ipv4_value a b c d) = (a = 172 \<and> 16 \<le> b \<and> b \<le> 31)"
    using assms q by (simp add: in_cidr4_def ipv4_value_div split_digit quotients(1))
  show "in_cidr4 (ipv4_value 100 64 0 0) 10 (ipv4_value a b c d) = (a = 100 \<and> 64 \<le> b \<and> b \<le> 127)"
    using assms q by (simp add: in_cidr4_def ipv4_value_div split_digit quotients(2))
  show "in_cidr4 (ipv4_value 198 18 0 0) 15 (ipv4_value a b c d) = (a = 198 \<and> 18 \<le> b \<and> b \<le> 19)"
    using assms q by (simp add: in_cidr4_def ipv4_value_div split_digit quotients(3))
  show "in_cidr4 (ipv4_value 192 168 0 0) 16 (ipv4_value a b c d) = (a = 192 \<and> b = 168)"
    and "in_cidr4 (ipv4_value 169 254 0 0) 16 (ipv4_value a b c d) = (a = 169 \<and> b = 254)"
    using assms by (simp_all add: in_cidr4_def ipv4_value_div split_digit)
  show "in_cidr4 (ipv4_value 192 0 0 0) 24 (ipv4_value a b c d) = (a = 192 \<and> b = 0 \<and> c = 0)"
    and "in_cidr4 (ipv4_value 192 0 2 0) 24 (ipv4_value a b c d) = (a = 192 \<and> b = 0 \<and> c = 2)"
    and "in_cidr4 (ipv4_value 198 51 100 0) 24 (ipv4_value a b c d) = (a = 198 \<and> b = 51 \<and> c = 100)"
    and "in_cidr4 (ipv4_value 203 0 113 0) 24 (ipv4_value a b c d) = (a = 203 \<and> b = 0 \<and> c = 113)"
    using assms by (simp_all add: in_cidr4_24)
  show "in_cidr4 (ipv4_value 224 0 0 0) 4 (ipv4_value a b c d) = (224 \<le> a \<and> a \<le> 239)"
    using assms by (simp add: in_cidr4_def ipv4_value_div quotients(4))
  show "in_cidr4 (ipv4_value 240 0 0 0) 4 (ipv4_value a b c d) = (240 \<le> a)"
    using assms by (simp add: in_cidr4_def ipv4_value_div quotients(5))
  show "in_cidr4 (ipv4_value 255 255 255 255) 32 (ipv4_value a b c d)
           = (a = 255 \<and> b = 255 \<and> c = 255 \<and> d = 255)"
    using assms by (simp add: in_cidr4_32)
qed

lemma unat_byte: "unat (x :: 8 word) < 256"
  using unsigned_less [of x, where 'a = nat] by simp

lemma isPrivateIP_ipv4_cidr:
  "isPrivateIP (ipv4 a b c d) =
     list_ex (\<lambda>(base, ones). in_cidr4 base ones (ipv4_value (unat a) (unat b) (unat c) (unat d)))
       reserved4"
  unfolding reserved4_def isPrivateIP_ipv4_bytes
  by (simp add: in_cidr4_cases [OF unat_byte unat_byte unat_byte unat_byte])

lemma upt_16: "[0..<16] = [0, 1, 2, 3, 4, 5, 6, 7, 8, 9, 10, 11, 12, 13, 14, 15]"
  by (simp add: upt_rec)

lemma Contains_v6_v6:
  assumes "length nip = 16" "length m = 16" "To4 nip = None" "length ip = 16" "To4 ip = None"
  shows "Contains \<lparr>net_IP = nip, net_Mask = m\<rparr> ip =
     (\<forall>i < 16. (nip ! i) AND (m ! i) = (ip ! i) AND (m ! i))"
  using assms by (auto simp: Contains_def networkNumberAndMask_def Let_def list_all_iff)

lemma Contains_v4_v6:
  assumes "length ip = 16" "To4 ip = None"
  shows "\<not> Contains \<lparr>net_IP = [A, B, C, D], net_Mask = [m0, m1, m2, m3]\<rparr> ip"
  using assms by (simp add: Contains_def networkNumberAndMask_def To4_four Let_def)

lemma nth_head_zeros:
  "i < Suc n \<Longrightarrow> (x # replicate n (0 :: 8 word)) ! i = (if i = 0 then x else 0)"
  by (cases i) simp_all

lemma nth_head2_zeros:
  "i < Suc (Suc n) \<Longrightarrow>
   (x # y # replicate n (0 :: 8 word)) ! i = (if i = 0 then x else if i = 1 then y else 0)"
  by (cases i) (simp_all add: nth_head_zeros)

lemma lists16:
  "[252, 0, 0, 0, 0, 0, 0, 0, 0, 0, 0, 0, 0, 0, 0, 0] = (252 :: 8 word) # replicate 15 0"
  "[254, 0, 0, 0, 0, 0, 0, 0, 0, 0, 0, 0, 0, 0, 0, 0] = (254 :: 8 word) # replicate 15 0"
  "[254, 128, 0, 0, 0, 0, 0, 0, 0, 0, 0, 0, 0, 0, 0, 0] = (254 :: 8 word) # 128 # replicate 14 0"
  "[255, 192, 0, 0, 0, 0, 0, 0, 0, 0, 0, 0, 0, 0, 0, 0] = (255 :: 8 word) # 192 # replicate 14 0"
  "[0, 0, 0, 0, 0, 0, 0, 0, 0, 0, 0, 0, 0, 0, 0, 1] = replicate 15 (0 :: 8 word) @ [1]"
  "[255, 255, 255, 255, 255, 255, 255, 255, 255, 255, 255, 255, 255, 255, 255, 255]
     = replicate 16 (255 :: 8 word)"
  by (simp_all add: numeral_eq_Suc)

lemma To4_v6_nets:
  "To4 ((252 :: 8 word) # replicate 15 0) = None"
  "To4 ((254 :: 8 word) # 128 # replicate 14 0) = None"
  "To4 (replicate 15 (0 :: 8 word) @ [1]) = None"
  by (simp_all add: To4_def nth_append)

lemma Contains_loopback6:
  assumes "length ip = 16" "To4 ip = None"
  shows "Contains \<lparr>net_IP = replicate 15 0 @ [1], net_Mask = replicate 16 255\<rparr> ip
     = (ip = replicate 15 0 @ [1])"
proof -
  have "Contains \<lparr>net_IP = replicate 15 0 @ [1], net_Mask = replicate 16 255\<rparr> ip
      = (\<forall>i < 16. (replicate 15 0 @ [1]) ! i = ip ! i)"
    using assms by (simp add: Contains_v6_v6 To4_v6_nets and_FF)
  also have "\<dots> = (replicate 15 0 @ [1] = ip)"
    using assms by (auto simp: list_eq_iff_nth_eq)
  finally show ?thesis by auto
qed

lemma Contains_ula6:
  assumes "length ip = 16" "To4 ip = None"
  shows "Contains \<lparr>net_IP = 252 # replicate 15 0, net_Mask = 254 # replicate 15 0\<rparr> ip
     = (252 \<le> unat (ip ! 0) \<and> unat (ip ! 0) \<le> 253)"
proof -
  have "Contains \<lparr>net_IP = 252 # replicate 15 0, net_Mask = 254 # replicate 15 0\<rparr> ip
      = (\<forall>i < 16. (if i = 0 then 252 else 0) AND (if i = 0 then 254 else 0)
            = (ip ! i) AND (if i = 0 then 254 else (0 :: 8 word)))"
    using assms by (simp add: Contains_v6_v6 To4_v6_nets nth_head_zeros)
  also have "\<dots> = ((ip ! 0) AND 254 = 252)"
    by auto
  finally show ?thesis by (simp add: byte_prefix)
qed

lemma Contains_linklocal6:
  assumes "length ip = 16" "To4 ip = None"
  shows "Contains \<lparr>net_IP = 254 # 128 # replicate 14 0, net_Mask = 255 # 192 # replicate 14 0\<rparr> ip
     = (ip ! 0 = 254 \<and> 128 \<le> unat (ip ! 1) \<and> unat (ip ! 1) \<le> 191)"
proof -
  have "Contains \<lparr>net_IP = 254 # 128 # replicate 14 0, net_Mask = 255 # 192 # replicate 14 0\<rparr> ip
      = (\<forall>i < 16. (if i = 0 then 254 else if i = 1 then 128 else 0)
                    AND (if i = 0 then 255 else if i = 1 then 192 else 0)
            = (ip ! i) AND (if i = 0 then 255 else if i = 1 then 192 else (0 :: 8 word)))"
    using assms by (simp add: Contains_v6_v6 To4_v6_nets nth_head2_zeros)
  also have "\<dots> = ((ip ! 0) = 254 \<and> (ip ! 1) AND 192 = 128)"
    by (auto simp: and_FF)
  finally show ?thesis by (simp add: byte_prefix)
qed

lemma isPrivateIP_ipv6_bytes:
  assumes "length ip = 16" "To4 ip = None"
  shows "isPrivateIP ip =
     (ip = replicate 15 0 @ [1] \<or>
      (252 \<le> unat (ip ! 0) \<and> unat (ip ! 0) \<le> 253) \<or>
      (ip ! 0 = 254 \<and> 128 \<le> unat (ip ! 1) \<and> unat (ip ! 1) \<le> 191))"
  unfolding isPrivateIP_def privateRanges_eq lists16
  using assms
  by (simp add: Contains_v4_v6 Contains_loopback6 Contains_ula6 Contains_linklocal6)

lemma map_unat_loopback6:
  "(map unat (ip :: IP) = replicate 15 0 @ [1]) = (ip = replicate 15 0 @ [1])"
proof -
  have "map unat (replicate 15 0 @ [1 :: 8 word]) = replicate 15 0 @ [1]" by simp
  then have "(map unat ip = replicate 15 0 @ [1])
      = (map unat ip = map unat (replicate 15 0 @ [1 :: 8 word]))"
    by simp
  also have "\<dots> = (ip = replicate 15 0 @ [1])"
    by (rule inj_map_eq_map) (simp add: inj_on_def word_unat_eq_iff)
  finally show ?thesis .
qed

lemma isPrivateIP_ipv6_cidr:
  assumes "length ip = 16" "To4 ip = None"
  shows "isPrivateIP ip = reserved6 (map unat ip)"
  using assms
  by (simp add: isPrivateIP_ipv6_bytes reserved6_def map_unat_loopback6 [unfolded One_nat_def]
      word_unat_eq_iff)

text \<open>
  What validation rejects: every URL whose scheme is, in lower case, neither \<open>http\<close> nor
  \<open>https\<close>; every URL without a hostname; every URL whose hostname does not resolve; and,
  unless the test-only option has switched the check off, every URL one of whose resolved
  addresses is read by \<^verbatim>\<open>net.ParseIP\<close> as an address in one of the eighteen reserved ranges
  (the table \<open>privateRanges\<close>, with the membership test of \<^verbatim>\<open>IPNet.Contains\<close>). A URL that
  does not parse fails as well. The check is on when no option is given, and the table is
  the list of the specification: on an IPv4 address it holds exactly the fifteen IPv4
  ranges, on an IPv6 address that is not IPv4-mapped exactly \<open>::1/128\<close>, \<open>fc00::/7\<close> and
  \<open>fe80::/10\<close>.
\<close>

theorem ValidateWebhookURL_rejects:
  "(url_Parse lib rawURL = Inr u \<and>
      ToLower (url_Scheme u) \<noteq> ''http'' \<and> ToLower (url_Scheme u) \<noteq> ''https'' \<longrightarrow>
      ValidateWebhookURL lib rawURL opts = Some (ErrSchemeNotAllowed (url_Scheme u))) \<and>
   (url_Parse lib rawURL = Inr u \<and> url_Hostname u = [] \<longrightarrow>
      ValidateWebhookURL lib rawURL opts \<in> {Some (ErrSchemeNotAllowed (url_Scheme u)), Some ErrNoHostname}) \<and>
   (url_Parse lib rawURL = Inr u \<and> LookupHost lib (url_Hostname u) = Inl err \<longrightarrow>
      ValidateWebhookURL lib rawURL opts
        \<in> {Some (ErrSchemeNotAllowed (url_Scheme u)), Some ErrNoHostname,
            Some (ErrCannotResolve (url_Hostname u) err)}) \<and>
   (url_Parse lib rawURL = Inr u \<and> LookupHost lib (url_Hostname u) = Inr ips \<and>
      s \<in> set ips \<and> ParseIP lib s = Some ip \<and> list_ex (\<lambda>r. Contains r ip) privateRanges \<and>
      \<not> allowPrivate (applyOptions opts) \<longrightarrow>
      ValidateWebhookURL lib rawURL opts \<noteq> None) \<and>
   (url_Parse lib rawURL = Inl err \<longrightarrow>
      ValidateWebhookURL lib rawURL opts = Some (ErrInvalidURL err)) \<and>
   \<not> allowPrivate (applyOptions []) \<and>
   isPrivateIP (ipv4 a b c d)
     = list_ex (\<lambda>(base, ones). in_cidr4 base ones (ipv4_value (unat a) (unat b) (unat c) (unat d)))
         reserved4 \<and>
   (length ip6 = 16 \<and> To4 ip6 = None \<longrightarrow> isPrivateIP ip6 = reserved6 (map unat ip6))"
proof (intro conjI impI)
  assume "url_Parse lib rawURL = Inr u \<and>
      ToLower (url_Scheme u) \<noteq> ''http'' \<and> ToLower (url_Scheme u) \<noteq> ''https''"
  then show "ValidateWebhookURL lib rawURL opts = Some (ErrSchemeNotAllowed (url_Scheme u))"
    by (simp add: ValidateWebhookURL_def Let_def)
next
  assume "url_Parse lib rawURL = Inr u \<and> url_Hostname u = []"
  then show "ValidateWebhookURL lib rawURL opts
      \<in> {Some (ErrSchemeNotAllowed (url_Scheme u)), Some ErrNoHostname}"
    by (simp add: ValidateWebhookURL_def Let_def)
next
  assume "url_Parse lib rawURL = Inr u \<and> LookupHost lib (url_Hostname u) = Inl err"
  then show "ValidateWebhookURL lib rawURL opts
        \<in> {Some (ErrSchemeNotAllowed (url_Scheme u)), Some ErrNoHostname,
            Some (ErrCannotResolve (url_Hostname u) err)}"
    by (simp add: ValidateWebhookURL_def Let_def)
next
  assume a: "url_Parse lib rawURL = Inr u \<and> LookupHost lib (url_Hostname u) = Inr ips \<and>
      s \<in> set ips \<and> ParseIP lib s = Some ip \<and> list_ex (\<lambda>r. Contains r ip) privateRanges \<and>
      \<not> allowPrivate (applyOptions opts)"
  then have "isPrivateIP ip" by (simp add: isPrivateIP_def)
  with a have "\<exists>s' \<in> set ips. checkResolved lib ips = Some (ErrPrivateIP s')"
    using checkResolved_rejects [of s ips lib ip] by simp
  then have "checkResolved lib ips \<noteq> None" by auto
  with a show "ValidateWebhookURL lib rawURL opts \<noteq> None"
    by (simp add: ValidateWebhookURL_def Let_def)
next
  assume "url_Parse lib rawURL = Inl err"
  then show "ValidateWebhookURL lib rawURL opts = Some (ErrInvalidURL err)"
    by (simp add: ValidateWebhookURL_def Let_def)
next
  show "\<not> allowPrivate (applyOptions [])" by (simp add: applyOptions_def)
next
  show "isPrivateIP (ipv4 a b c d)
     = list_ex (\<lambda>(base, ones). in_cidr4 base ones (ipv4_value (unat a) (unat b) (unat c) (unat d)))
         reserved4"
    by (rule isPrivateIP_ipv4_cidr)
next
  assume "length ip6 = 16 \<and> To4 ip6 = None"
  then show "isPrivateIP ip6 = reserved6 (map unat ip6)"
    by (simp add: isPrivateIP_ipv6_cidr)
qed

theorem ValidateWebhookURL_rejects_witness:
  "ValidateWebhookURL example_net ''ftp://example.com/file'' [] = Some (ErrSchemeNotAllowed ''ftp'') \<and>
   ValidateWebhookURL example_net ''http:///path'' [] = Some ErrNoHostname \<and>
   ValidateWebhookURL example_net ''http://nowhere.invalid/'' []
     = Some (ErrCannotResolve ''nowhere.invalid'' ''no such host'') \<and>
   Contains (cidr4 10 0 0 0 8) (ipv4 10 0 0 1) \<and>
   ValidateWebhookURL example_net ''http://intranet.example/hook'' [] \<noteq> None \<and>
   ValidateWebhookURL example_net ''://example.com'' [] = Some (ErrInvalidURL ''missing protocol scheme'')"
proof -
  have c: "Contains (cidr4 10 0 0 0 8) (ipv4 10 0 0 1)" by code_simp
  then have priv: "list_ex (\<lambda>r. Contains r (ipv4 10 0 0 1)) privateRanges"
    by (simp add: privateRanges_def)
  have low: "ToLower ''ftp'' = ''ftp''" "ToLower ''http'' = ''http''"
    by (simp_all add: ToLower_def toLowerChar_def)
  have off: "\<not> allowPrivate (applyOptions [])" by (simp add: applyOptions_def)
  have 1: "ValidateWebhookURL example_net ''ftp://example.com/file'' [] = Some (ErrSchemeNotAllowed ''ftp'')"
    using ValidateWebhookURL_rejects [of example_net "''ftp://example.com/file''"
        "\<lparr>url_Scheme = ''ftp'', url_Hostname = ''example.com''\<rparr>" "[]"
        "''no such host''" "[]" "''x''" "ipv4 10 0 0 1"
        10 0 0 1 "replicate 15 0 @ [1]"] low
    by (simp add: example_net_def)
  have 2: "ValidateWebhookURL example_net ''http:///path'' [] = Some ErrNoHostname"
    using ValidateWebhookURL_rejects [of example_net "''http:///path''"
        "\<lparr>url_Scheme = ''http'', url_Hostname = []\<rparr>" "[]"
        "''no such host''" "[]" "''x''" "ipv4 10 0 0 1"
        10 0 0 1 "replicate 15 0 @ [1]"] low
    by (simp add: example_net_def ValidateWebhookURL_def)
  have 3: "ValidateWebhookURL example_net ''http://nowhere.invalid/'' []
     = Some (ErrCannotResolve ''nowhere.invalid'' ''no such host'')"
    using ValidateWebhookURL_rejects [of example_net "''http://nowhere.invalid/''"
        "\<lparr>url_Scheme = ''http'', url_Hostname = ''nowhere.invalid''\<rparr>" "[]"
        "''no such host''" "[]" "''x''" "ipv4 10 0 0 1"
        10 0 0 1 "replicate 15 0 @ [1]"] low
    by (simp add: example_net_def ValidateWebhookURL_def)
  have 4: "ValidateWebhookURL example_net ''http://intranet.example/hook'' [] \<noteq> None"
    using ValidateWebhookURL_rejects [of example_net "''http://intranet.example/hook''"
        "\<lparr>url_Scheme = ''http'', url_Hostname = ''intranet.example''\<rparr>" "[]"
        "''no such host''" "[''93.184.216.34'', ''10.0.0.1'']" "''10.0.0.1''" "ipv4 10 0 0 1"
        10 0 0 1 "replicate 15 0 @ [1]"]
      priv off
    by (simp add: example_net_def)
  have 5: "ValidateWebhookURL example_net ''://example.com'' [] = Some (ErrInvalidURL ''missing protocol scheme'')"
    using ValidateWebhookURL_rejects [of example_net "''://example.com''"
        "\<lparr>url_Scheme = ''http'', url_Hostname = []\<rparr>" "[]"
        "''missing protocol scheme''" "[]" "''x''" "ipv4 10 0 0 1"
        10 0 0 1 "replicate 15 0 @ [1]"]
    by (simp add: example_net_def)
  from 1 2 3 c 4 5 show ?thesis by blast
qed

text \<open>
  C8: validation is to fail for every URL one of whose resolved addresses lies in a
  reserved range, among them \<open>fe80::/10\<close>. The loop over the resolved addresses skips an
  address that \<^verbatim>\<open>net.ParseIP\<close> does not read, and \<^verbatim>\<open>net.ParseIP\<close> reads no address with a
  zone. The host of \<^verbatim>\<open>http://[fe80::1%25eth0]/hook\<close> is the link-local address \<open>fe80::1\<close> on
  the interface \<open>eth0\<close>; it resolves to itself, the loop skips it, and validation accepts
  the URL, although \<open>isPrivateIP\<close> holds of the sixteen bytes of \<open>fe80::1\<close>.
\<close>

theorem ValidateWebhookURL_zone_literal:
  "url_Parse example_net ''http://[fe80::1%25eth0]/hook''
     = Inr \<lparr>url_Scheme = ''http'', url_Hostname = ''fe80::1%eth0''\<rparr> \<and>
   LookupHost example_net ''fe80::1%eth0'' = Inr [''fe80::1%eth0''] \<and>
   ParseIP example_net ''fe80::1%eth0'' = None \<and>
   isPrivateIP [0xFE, 0x80, 0, 0, 0, 0, 0, 0, 0, 0, 0, 0, 0, 0, 0, 1] \<and>
   ValidateWebhookURL example_net ''http://[fe80::1%25eth0]/hook'' [] = None"
proof -
  have "length [0xFE :: 8 word, 0x80, 0, 0, 0, 0, 0, 0, 0, 0, 0, 0, 0, 0, 0, 1] = 16"
    and "To4 [0xFE :: 8 word, 0x80, 0, 0, 0, 0, 0, 0, 0, 0, 0, 0, 0, 0, 0, 1] = None"
    by (simp_all add: To4_def)
  then have "isPrivateIP [0xFE, 0x80, 0, 0, 0, 0, 0, 0, 0, 0, 0, 0, 0, 0, 0, 1]"
    by (simp add: isPrivateIP_ipv6_bytes)
  then show ?thesis
    by (simp add: example_net_def ValidateWebhookURL_def ToLower_def toLowerChar_def
        applyOptions_def Let_def)
qed

subsection \<open>Webhook delivery failures\<close>

lemma sint_times_push_bit:
  fixes i :: go_int
  assumes "0 \<le> sint i" and "sint i * 2 ^ n < 2 ^ 63"
  shows "sint (i * push_bit n 1) = sint i * 2 ^ n"
proof -
  have eq: "(word_of_int (sint i * 2 ^ n) :: go_int) = i * push_bit n 1"
    by (simp add: push_bit_of_1)
  have "sint (word_of_int (sint i * 2 ^ n) :: go_int)
      = signed_take_bit (LENGTH(64) - 1) (sint i * 2 ^ n)"
    by (rule sint_sbintrunc')
  then have "sint (i * push_bit n 1) = signed_take_bit 63 (sint i * 2 ^ n)"
    unfolding eq by simp
  moreover have "- (2 ^ 63) \<le> sint i * 2 ^ n"
  proof -
    have "0 \<le> sint i * 2 ^ n" using assms(1) by simp
    moreover have "- (2 ^ 63) \<le> (0 :: int)" by simp
    ultimately show ?thesis by (rule order_trans [rotated])
  qed
  ultimately show ?thesis
    using assms(2) by (simp add: signed_take_bit_int_eq_self)
qed

lemma sint_pred:
  fixes a :: go_int
  assumes "1 \<le> sint a"
  shows "sint (a - 1) = sint a - 1"
proof -
  have "sint a < 2 ^ 63" using sint_lt [of a] by simp
  with assms have "- (2 ^ 63) \<le> sint a - 1" "sint a - 1 < 2 ^ 63" by simp_all
  then have "signed_take_bit 63 (sint a - 1) = sint a - 1"
    by (rule signed_take_bit_int_eq_self)
  then show ?thesis by (simp add: sint_word_diff)
qed

lemma unat_of_nonneg_sint:
  fixes a :: go_int
  assumes "0 \<le> sint a"
  shows "unat a = nat (sint a)"
proof -
  have "sint a < 2 ^ 63" using sint_lt [of a] by simp
  then have "sint a < 2 ^ 64" by simp
  with assms have "take_bit 64 (sint a) = sint a" by (simp add: take_bit_int_eq_self)
  then have "uint a = sint a" using uint_sint [of a] by simp
  then show ?thesis by (simp add: unat_eq_nat_uint)
qed

text \<open>
  The dead-letter branch: at \<open>attempt \<ge> MaxRetries\<close> no retry is scheduled, and the dead
  letter carries the serialised envelope, the last error, the attempt number and
  \<open>replayable = true\<close>.
\<close>

lemma handleFailure_dead_letter:
  "sint (MaxRetries cfg) \<le> sint attempt \<Longrightarrow>
   handleFailure json_Marshal cfg pool wh env attempt errMsg =
     CreateDeadLetter
       \<lparr>dl_WebhookID = wh_ID wh, dl_EventID = env_ID env, dl_EventType = env_Type env,
        dl_Payload = (case json_Marshal env of Inl err \<Rightarrow> [] | Inr payload \<Rightarrow> payload),
        dl_LastError = errMsg, dl_Attempts = attempt, dl_Replayable = True\<rparr>"
  by (simp add: handleFailure_def)

text \<open>
  The retry branch while the product \<open>initial * 2 ^ (attempt - 1)\<close> fits into 63 bits: the
  delay is the one of the specification.
\<close>

lemma handleFailure_retry_in_range:
  assumes "sint attempt < sint (MaxRetries cfg)" and "1 \<le> sint attempt"
    and "0 \<le> sint (BackoffInitialSec cfg)"
    and "sint (BackoffInitialSec cfg) * 2 ^ (nat (sint attempt) - 1) < 2 ^ 63"
  shows "handleFailure json_Marshal cfg PoolAccepts wh env attempt errMsg =
     RetryViaPool
       (word_of_int (spec_backoff (sint (BackoffInitialSec cfg)) (sint (BackoffMaxSec cfg))
          (nat (sint attempt))))
       (attempt + 1)"
proof -
  let ?n = "nat (sint attempt) - 1"
  from assms(2) have pred: "sint (attempt - 1) = sint attempt - 1" by (rule sint_pred)
  with assms(2) have pos: "0 \<le> sint (attempt - 1)" by simp
  then have "unat (attempt - 1) = nat (sint (attempt - 1))" by (rule unat_of_nonneg_sint)
  with pred have n: "unat (attempt - 1) = ?n" by (simp add: nat_diff_distrib)
  have prod: "sint (BackoffInitialSec cfg * push_bit ?n 1) = sint (BackoffInitialSec cfg) * 2 ^ ?n"
    using assms(3,4) by (rule sint_times_push_bit)
  have shl: "go_shl 1 (attempt - 1) = Inr (push_bit ?n 1)"
    using pos n by (simp add: go_shl_def)
  show ?thesis
  proof (cases "sint (BackoffMaxSec cfg) < sint (BackoffInitialSec cfg) * 2 ^ ?n")
    case True
    with assms(1) shl prod show ?thesis
      by (simp add: handleFailure_def Let_def spec_backoff_def min_def)
  next
    case False
    have "BackoffInitialSec cfg * push_bit ?n 1
        = word_of_int (sint (BackoffInitialSec cfg * push_bit ?n 1))"
      by simp
    also have "\<dots> = word_of_int (sint (BackoffInitialSec cfg) * 2 ^ ?n)"
      by (simp only: prod)
    finally have w: "BackoffInitialSec cfg * push_bit ?n 1
        = word_of_int (sint (BackoffInitialSec cfg) * 2 ^ ?n)" .
    from False assms(1) shl prod show ?thesis
      by (simp add: handleFailure_def Let_def spec_backoff_def min_def w [symmetric])
  qed
qed

text \<open>
  C3 at an attempt beyond the width of the shift: with 100 retries allowed, an initial
  back-off of 1 s and a maximum of 300 s, the failure of attempt 65 is below the retry
  limit, and the claim gives the delay \<open>min (1 * 2 ^ 64) 300 = 300\<close> seconds. The code
  computes \<open>1 << 64 = 0\<close> in 64 bits and schedules attempt 66 after 0 seconds; at attempt
  64 the factor is \<open>1 << 63\<close>, a negative number, and the delay is negative.
\<close>

theorem handleFailure_backoff_overflow:
  "sint (65 :: go_int) < sint (MaxRetries example_deliverer_config) \<and>
   spec_backoff (sint (BackoffInitialSec example_deliverer_config))
      (sint (BackoffMaxSec example_deliverer_config)) 65 = 300 \<and>
   handleFailure example_marshal example_deliverer_config PoolAccepts example_endpoint
      example_envelope 65 ''HTTP 500'' = RetryViaPool 0 66 \<and>
   handleFailure example_marshal example_deliverer_config PoolAccepts example_endpoint
      example_envelope 64 ''HTTP 500'' = RetryViaPool (- (2 ^ 63)) 65 \<and>
   handleFailure example_marshal example_deliverer_config PoolAccepts example_endpoint
      example_envelope 10 ''HTTP 500'' = RetryViaPool 300 11 \<and>
   handleFailure example_marshal example_deliverer_config PoolAccepts example_endpoint
      example_envelope 3 ''HTTP 500'' = RetryViaPool 4 4"
  by (simp add: handleFailure_def example_deliverer_config_def go_shl_def spec_backoff_def)

subsection \<open>Dialog sessions: a second start under the same id\<close>

lemma StartDialog_success:
  assumes "fmlookup (loader h) (req_DialogName req) = Some sm"
    and "GetState sm (if req_InitialState req = [] then InitialState sm else req_InitialState req)
           = Some st"
  shows "StartDialog now h req =
     (Inr \<lparr>resp_SessionId = req_SessionId req,
           resp_CurrentState =
             (if req_InitialState req = [] then InitialState sm else req_InitialState req),
           resp_Actions = actionsToDirectives (OnEnter st)\<rparr>,
      h\<lparr>store_sessions :=
          fmupd (req_SessionId req)
            \<lparr>as_session =
               (NewSession now (req_SessionId req) (req_DialogName req)
                  (if req_InitialState req = [] then InitialState sm else req_InitialState req))
               \<lparr>Variables := req_Variables req\<rparr>,
             as_sm = sm\<rparr>
            (store_sessions h)\<rparr>)"
  using assms by (simp add: StartDialog_def Let_def NewSession_def)

text \<open>
  C1 on the code: \<^verbatim>\<open>StartDialog\<close> never looks the session id up. When the store already
  holds a session under the id of the request (started, and neither ended nor reaped), and
  the dialog and its initial state exist, the call succeeds: it answers with the session
  id, and the store then holds under that id the new session (the dialog and variables of
  the request, history empty, start time \<open>now\<close>) in place of the old one.
\<close>

theorem StartDialog_duplicate_replaces:
  assumes "fmlookup (store_sessions h) (req_SessionId req) = Some old"
    and "fmlookup (loader h) (req_DialogName req) = Some sm"
    and "GetState sm (if req_InitialState req = [] then InitialState sm else req_InitialState req)
           = Some st"
  shows "\<exists>resp new.
     fst (StartDialog now h req) = Inr resp \<and>
     resp_SessionId resp = req_SessionId req \<and>
     fmlookup (store_sessions (snd (StartDialog now h req))) (req_SessionId req) = Some new \<and>
     session_ID (as_session new) = req_SessionId req \<and>
     DialogName (as_session new) = req_DialogName req \<and>
     Variables (as_session new) = req_Variables req \<and>
     History (as_session new) = [] \<and>
     StartTime (as_session new) = now \<and>
     as_sm new = sm"
proof -
  let ?init = "if req_InitialState req = [] then InitialState sm else req_InitialState req"
  let ?new = "\<lparr>as_session =
       (NewSession now (req_SessionId req) (req_DialogName req) ?init)
         \<lparr>Variables := req_Variables req\<rparr>,
     as_sm = sm\<rparr>"
  from StartDialog_success [OF assms(2,3), of now]
  have "fst (StartDialog now h req) =
      Inr \<lparr>resp_SessionId = req_SessionId req, resp_CurrentState = ?init,
           resp_Actions = actionsToDirectives (OnEnter st)\<rparr>"
    and "fmlookup (store_sessions (snd (StartDialog now h req))) (req_SessionId req) = Some ?new"
    by simp_all
  then show ?thesis by (simp add: NewSession_def)
qed

theorem StartDialog_duplicate_replaces_witness:
  "(\<exists>resp. fst (StartDialog 0 example_handler (example_request ''support'')) = Inr resp) \<and>
   (\<exists>old. fmlookup (store_sessions (snd (StartDialog 0 example_handler (example_request ''support''))))
        ''s1'' = Some old \<and> DialogName (as_session old) = ''support'' \<and>
        StartTime (as_session old) = 0) \<and>
   (\<exists>resp new.
      fst (StartDialog 5 (snd (StartDialog 0 example_handler (example_request ''support'')))
             (example_request ''sales'')) = Inr resp \<and>
      resp_SessionId resp = ''s1'' \<and>
      fmlookup (store_sessions
          (snd (StartDialog 5 (snd (StartDialog 0 example_handler (example_request ''support'')))
             (example_request ''sales'')))) ''s1'' = Some new \<and>
      DialogName (as_session new) = ''sales'' \<and> StartTime (as_session new) = 5)"
proof -
  let ?h1 = "snd (StartDialog 0 example_handler (example_request ''support''))"
  have first: "StartDialog 0 example_handler (example_request ''support'') =
      (Inr \<lparr>resp_SessionId = ''s1'', resp_CurrentState = ''greeting'',
            resp_Actions = actionsToDirectives
              [\<lparr>action_Type = ''play_tts'', action_Params = fmupd ''text'' ''support'' fmempty\<rparr>]\<rparr>,
       example_handler\<lparr>store_sessions :=
         fmupd ''s1''
           \<lparr>as_session = (NewSession 0 ''s1'' ''support'' ''greeting'')
              \<lparr>Variables := fmupd ''caller'' ''support'' fmempty\<rparr>,
            as_sm = example_dialog ''support''\<rparr>
           fmempty\<rparr>)"
    by (simp add: StartDialog_def Let_def NewSession_def example_handler_def example_request_def
        example_dialog_def GetState_def)
  have old: "fmlookup (store_sessions ?h1) (req_SessionId (example_request ''sales'')) =
      Some \<lparr>as_session = (NewSession 0 ''s1'' ''support'' ''greeting'')
              \<lparr>Variables := fmupd ''caller'' ''support'' fmempty\<rparr>,
            as_sm = example_dialog ''support''\<rparr>"
    unfolding first by (simp add: example_request_def)
  have ld: "fmlookup (loader ?h1) (req_DialogName (example_request ''sales''))
      = Some (example_dialog ''sales'')"
    unfolding first by (simp add: example_handler_def example_request_def)
  have st: "GetState (example_dialog ''sales'')
      (if req_InitialState (example_request ''sales'') = []
       then InitialState (example_dialog ''sales'')
       else req_InitialState (example_request ''sales''))
      = Some \<lparr>OnEnter = [\<lparr>action_Type = ''play_tts'',
                              action_Params = fmupd ''text'' ''sales'' fmempty\<rparr>],
               Transitions = [], Timeout = [], TimeoutNext = [], Terminal = False\<rparr>"
    by (simp add: GetState_def example_dialog_def example_request_def)
  from StartDialog_duplicate_replaces [OF old ld st, of 5]
  have second: "\<exists>resp new.
      fst (StartDialog 5 ?h1 (example_request ''sales'')) = Inr resp \<and>
      resp_SessionId resp = ''s1'' \<and>
      fmlookup (store_sessions (snd (StartDialog 5 ?h1 (example_request ''sales'')))) ''s1''
        = Some new \<and>
      DialogName (as_session new) = ''sales'' \<and> StartTime (as_session new) = 5"
    by (auto simp: example_request_def)
  have "\<exists>resp. fst (StartDialog 0 example_handler (example_request ''support'')) = Inr resp"
    unfolding first by simp
  moreover have "\<exists>old. fmlookup (store_sessions ?h1) ''s1'' = Some old \<and>
      DialogName (as_session old) = ''support'' \<and> StartTime (as_session old) = 0"
    unfolding first by (simp add: NewSession_def)
  ultimately show ?thesis using second by blast
qed

end
